theory Spec2Isabelle
  imports Complex_Main
begin

section \<open>Order fulfilment, ledger and dashboard aggregates of \<open>app.py\<close>\<close>

text \<open>
  A shallow embedding of the order and reporting core of the Flask application in
  \<open>src/app.py\<close>: the tables \<open>Product\<close>, \<open>Order\<close>, \<open>OrderItem\<close> and
  \<open>Transaction\<close>, the request handlers \<open>adjust_stock\<close>, \<open>add_order\<close> (its POST
  branch), \<open>update_order_status\<close> and \<open>delete_order\<close>, and the dashboard helpers
  \<open>get_sales_chart_data\<close>, \<open>get_top_products\<close> and \<open>get_monthly_revenue\<close>.

  Conventions of the model.
  \<^item> A table is the list of its rows in insertion order; a row is a record with one
    field per column. Nullable text and foreign-key columns are options.
  \<^item> The session is explicit state: a handler takes the database and returns either
    the committed database (\<open>Inr\<close>) or the exception that ended the request
    (\<open>Inl\<close>); an exception leaves nothing committed.
  \<^item> \<open>Integer\<close> columns and Python integers are \<open>int\<close>; an integer outside the
    signed 64 bits that SQLite stores raises \<open>OverflowError\<close> where it is bound to a
    statement. \<open>Float\<close> columns and Python floats are \<open>real\<close>: the rounding of
    binary floating point is outside the model.
  \<^item> What a handler reads from its surroundings is a parameter: the submitted form,
    the clock, the random suffix of the order number and the logged-in user.
\<close>

subsection \<open>Dates\<close>

record date =
  year :: nat
  month :: nat
  day :: nat

record datetime =
  dt_date :: date
  dt_micros :: nat

definition is_leap :: "nat \<Rightarrow> bool" where
  "is_leap y = (y mod 4 = 0 \<and> (y mod 100 \<noteq> 0 \<or> y mod 400 = 0))"

definition days_in_month :: "nat \<Rightarrow> nat \<Rightarrow> nat" where
  "days_in_month y m =
     (if m = 2 then (if is_leap y then 29 else 28)
      else if m = 4 \<or> m = 6 \<or> m = 9 \<or> m = 11 then 30
      else 31)"

text \<open>The dates of the calendar, as Python's \<open>date\<close> admits them.\<close>

definition valid_date :: "date \<Rightarrow> bool" where
  "valid_date x =
     (1 \<le> year x \<and> 1 \<le> month x \<and> month x \<le> 12 \<and> 1 \<le> day x \<and>
      day x \<le> days_in_month (year x) (month x))"

definition next_day :: "date \<Rightarrow> date" where
  "next_day d =
     (if day d < days_in_month (year d) (month d) then d\<lparr>day := day d + 1\<rparr>
      else if month d < 12 then d\<lparr>month := month d + 1, day := 1\<rparr>
      else \<lparr>year = year d + 1, month = 1, day = 1\<rparr>)"

definition prev_day :: "date \<Rightarrow> date" where
  "prev_day d =
     (if 1 < day d then d\<lparr>day := day d - 1\<rparr>
      else if 1 < month d then
        d\<lparr>month := month d - 1, day := days_in_month (year d) (month d - 1)\<rparr>
      else \<lparr>year = year d - 1, month = 12, day = 31\<rparr>)"

text \<open>\<open>d + timedelta(days=n)\<close> and \<open>d - timedelta(days=n)\<close>, for \<open>n \<ge> 0\<close>.\<close>

definition date_plus :: "date \<Rightarrow> nat \<Rightarrow> date" where
  "date_plus d n = (next_day ^^ n) d"

definition date_minus :: "date \<Rightarrow> nat \<Rightarrow> date" where
  "date_minus d n = (prev_day ^^ n) d"

definition date_less :: "date \<Rightarrow> date \<Rightarrow> bool" where
  "date_less a b =
     (year a < year b \<or>
      (year a = year b \<and> (month a < month b \<or> (month a = month b \<and> day a < day b))))"

definition midnight :: "date \<Rightarrow> datetime" where
  "midnight d = \<lparr>dt_date = d, dt_micros = 0\<rparr>"

definition dt_less :: "datetime \<Rightarrow> datetime \<Rightarrow> bool" where
  "dt_less a b =
     (date_less (dt_date a) (dt_date b) \<or> (dt_date a = dt_date b \<and> dt_micros a < dt_micros b))"

text \<open>\<open>str(n)\<close> for \<open>n \<ge> 0\<close>.\<close>

fun digits10 :: "nat \<Rightarrow> string" where
  "digits10 n =
     (if n < 10 then [''0123456789'' ! n]
      else digits10 (n div 10) @ [''0123456789'' ! (n mod 10)])"

declare digits10.simps [simp del]

definition zfill :: "nat \<Rightarrow> string \<Rightarrow> string" where
  "zfill w s = replicate (w - length s) (CHR ''0'') @ s"

definition month_abbr :: "nat \<Rightarrow> string" where
  "month_abbr m =
     [''Jan'', ''Feb'', ''Mar'', ''Apr'', ''May'', ''Jun'',
      ''Jul'', ''Aug'', ''Sep'', ''Oct'', ''Nov'', ''Dec''] ! (m - 1)"

text \<open>\<open>strftime('%b %d')\<close> and \<open>strftime('%Y%m%d')\<close>.\<close>

definition strftime_b_d :: "date \<Rightarrow> string" where
  "strftime_b_d d = month_abbr (month d) @ '' '' @ zfill 2 (digits10 (day d))"

definition strftime_Ymd :: "date \<Rightarrow> string" where
  "strftime_Ymd d =
     zfill 4 (digits10 (year d)) @ zfill 2 (digits10 (month d)) @ zfill 2 (digits10 (day d))"

subsection \<open>Numbers read from a form, and rounding\<close>

text \<open>
  Python's \<open>int(s)\<close> on a string of ASCII characters: surrounding whitespace (space,
  tab, line feed, vertical tab, form feed, carriage return) is dropped, one sign is
  allowed, and the digits may be separated by single underscores. A numeral of more
  than 4300 digits (the interpreter's limit; leading zeros count, underscores do not) and
  anything else raises \<open>ValueError\<close>, which is \<open>None\<close> here. A string with a
  character outside ASCII is not read as a number here.
\<close>

definition is_space :: "char \<Rightarrow> bool" where
  "is_space c = (c \<in> set [CHR '' '', CHR 0x09, CHR 0x0A, CHR 0x0B, CHR 0x0C, CHR 0x0D])"

definition is_digit :: "char \<Rightarrow> bool" where
  "is_digit c = (48 \<le> (of_char c :: nat) \<and> (of_char c :: nat) \<le> 57)"

definition digit_val :: "char \<Rightarrow> nat" where
  "digit_val c = of_char c - 48"

fun parse_digits :: "string \<Rightarrow> nat \<Rightarrow> nat option" where
  "parse_digits [] acc = Some acc"
| "parse_digits (c # cs) acc =
     (if is_digit c then parse_digits cs (10 * acc + digit_val c)
      else if c = CHR ''_'' then
        (case cs of
           [] \<Rightarrow> None
         | d # ds \<Rightarrow> if is_digit d then parse_digits ds (10 * acc + digit_val d) else None)
      else None)"

definition strip :: "string \<Rightarrow> string" where
  "strip s = rev (dropWhile is_space (rev (dropWhile is_space s)))"

definition max_str_digits :: nat where
  "max_str_digits = 4300"

definition py_int :: "string \<Rightarrow> int option" where
  "py_int s =
     (case strip s of
        [] \<Rightarrow> None
      | c # cs \<Rightarrow>
          (let sign = (if c = CHR ''-'' then - 1 else 1);
               body = (if c = CHR ''-'' \<or> c = CHR ''+'' then cs else c # cs)
           in case body of
                [] \<Rightarrow> None
              | d # ds \<Rightarrow>
                  if is_digit d \<and> length (filter is_digit body) \<le> max_str_digits
                  then map_option (\<lambda>n. sign * int n) (parse_digits ds (digit_val d))
                  else None))"

text \<open>\<open>round(x, 2)\<close>: to the nearest hundredth, a tie going to the even neighbour.\<close>

definition round_half_even :: "real \<Rightarrow> int" where
  "round_half_even x =
     (let f = \<lfloor>x\<rfloor>; d = x - of_int f
      in if d < 1 / 2 then f else if 1 / 2 < d then f + 1 else if even f then f else f + 1)"

definition round2 :: "real \<Rightarrow> real" where
  "round2 x = of_int (round_half_even (x * 100)) / 100"

subsection \<open>Errors, and the integers SQLite stores\<close>

datatype error = BadRequestKeyError | ValueError | NotFound | IntegrityError | OverflowError

text \<open>
  SQLite stores an integer in 64 bits, signed. A Python integer outside that range
  cannot be bound to a statement: the statement raises \<open>OverflowError\<close>, whether it
  looks a row up by that key or writes that value into a column.
\<close>

definition int64 :: "int \<Rightarrow> bool" where
  "int64 n = (- (2 ^ 63) \<le> n \<and> n < 2 ^ 63)"

subsection \<open>Tables\<close>

record product =
  p_id :: int
  name :: string
  sku :: string
  category :: "string option"
  price :: real
  cost :: real
  stock_quantity :: int
  min_stock_level :: int
  description :: "string option"
  p_created_at :: datetime

record order =
  o_id :: int
  order_number :: string
  customer_id :: int
  status :: string
  total_amount :: real
  created_at :: datetime
  created_by :: "int option"

record order_item =
  oi_id :: int
  order_id :: int
  product_id :: int
  quantity :: int
  unit_price :: real

record transaction =
  t_id :: int
  transaction_type :: string
  t_category :: "string option"
  amount :: real
  t_description :: "string option"
  reference :: "string option"
  t_date :: date
  t_created_at :: datetime
  t_created_by :: "int option"

record db =
  products :: "product list"
  orders :: "order list"
  order_items :: "order_item list"
  transactions :: "transaction list"

text \<open>
  The primary key SQLite gives a new row: one more than the largest key in the table,
  1 for an empty table.
\<close>

definition next_id :: "int list \<Rightarrow> int" where
  "next_id ids = fold max ids 0 + 1"

text \<open>The row with primary key \<open>k\<close> in the product table and in the order table.\<close>

definition get_product :: "product list \<Rightarrow> int \<Rightarrow> product option" where
  "get_product ps k = find (\<lambda>p. p_id p = k) ps"

definition get_order :: "order list \<Rightarrow> int \<Rightarrow> order option" where
  "get_order os k = find (\<lambda>x. o_id x = k) os"

text \<open>
  \<open>Product.query.get(k)\<close>: the key is bound to the \<open>SELECT\<close>, so a key outside 64 bits
  raises \<open>OverflowError\<close> before any row is looked at.
\<close>

definition query_get :: "product list \<Rightarrow> int \<Rightarrow> error + product option" where
  "query_get ps k = (if int64 k then Inr (get_product ps k) else Inl OverflowError)"

text \<open>Writing \<open>product.stock_quantity = v\<close> for the product with key \<open>k\<close>.\<close>

definition set_stock :: "product list \<Rightarrow> int \<Rightarrow> int \<Rightarrow> product list" where
  "set_stock ps k v = map (\<lambda>p. if p_id p = k then p\<lparr>stock_quantity := v\<rparr> else p) ps"

subsection \<open>Requests\<close>

text \<open>
  \<open>request.form\<close> is a multi-dictionary: the submitted fields in order, a key possibly
  repeated. \<open>form_get\<close> is \<open>request.form.get(k)\<close> (and \<open>request.form[k]\<close>, whose
  \<open>None\<close> is the 400 error), \<open>form_getlist\<close> is \<open>request.form.getlist(k)\<close>.
\<close>

type_synonym form = "(string \<times> string) list"

definition form_getlist :: "form \<Rightarrow> string \<Rightarrow> string list" where
  "form_getlist f k = map snd (filter (\<lambda>kv. fst kv = k) f)"

definition form_get :: "form \<Rightarrow> string \<Rightarrow> string option" where
  "form_get f k = (case form_getlist f k of [] \<Rightarrow> None | v # _ \<Rightarrow> Some v)"

record env =
  now :: datetime
  utcnow :: datetime
  randint :: nat
  current_user_id :: int

text \<open>\<open>generate_order_number\<close>; \<open>randint env\<close> is what \<open>random.randint(1000, 9999)\<close> drew.\<close>

definition generate_order_number :: "env \<Rightarrow> string" where
  "generate_order_number e =
     ''ORD-'' @ strftime_Ymd (dt_date (now e)) @ ''-'' @ digits10 (randint e)"

subsection \<open>Stock adjustment\<close>

text \<open>
  \<open>adjust_stock\<close>: \<open>get_or_404\<close>, the new stock, and the commit, which writes the new
  stock and so raises \<open>OverflowError\<close> when it is outside 64 bits.
\<close>

definition adjust_stock :: "int \<Rightarrow> form \<Rightarrow> db \<Rightarrow> error + db" where
  "adjust_stock k f d =
     (case query_get (products d) k of
        Inl err \<Rightarrow> Inl err
      | Inr None \<Rightarrow> Inl NotFound
      | Inr (Some product) \<Rightarrow>
          (case (case form_get f ''adjustment'' of None \<Rightarrow> Some 0 | Some s \<Rightarrow> py_int s) of
             None \<Rightarrow> Inl ValueError
           | Some adjustment \<Rightarrow>
               (let stock = max 0 (stock_quantity product + adjustment)
                in if int64 stock
                   then Inr (d\<lparr>products := set_stock (products d) k stock\<rparr>)
                   else Inl OverflowError)))"

subsection \<open>Order creation\<close>

text \<open>
  The loop of \<open>add_order\<close> over \<open>zip(product_id[], quantity[])\<close>. Its state is the
  session (products and order items) and the running total \<open>tot\<close>. \<open>int(qty)\<close> is only
  evaluated once the product has been found. A quantity or a new stock outside 64 bits
  makes the request fail with \<open>OverflowError\<close>: in the program when the session writes
  the value to the database (at its next flush, at the latest at the commit, and an
  integer too large for a float already in the multiplication with the price), here at
  the line that produces the value. The two differ on one kind of request only: a
  negative quantity that lifts a stock above 64 bits, followed by lines of the same
  product that bring it back before anything is written, is accepted by the program.
\<close>

fun add_order_loop :: "int \<Rightarrow> (string \<times> string) list \<Rightarrow> db \<times> real \<Rightarrow> error + (db \<times> real)" where
  "add_order_loop oid [] (d, tot) = Inr (d, tot)"
| "add_order_loop oid ((pid, qty) # rest) (d, tot) =
     (if pid \<noteq> [] \<and> qty \<noteq> [] then
        (case py_int pid of
           None \<Rightarrow> Inl ValueError
         | Some k \<Rightarrow>
             (case query_get (products d) k of
                Inl err \<Rightarrow> Inl err
              | Inr None \<Rightarrow> add_order_loop oid rest (d, tot)
              | Inr (Some product) \<Rightarrow>
                  (case py_int qty of
                     None \<Rightarrow> Inl ValueError
                   | Some q \<Rightarrow>
                       if int64 q \<and> int64 (max 0 (stock_quantity product - q))
                       then add_order_loop oid rest
                         (d\<lparr>order_items := order_items d @
                              [\<lparr>oi_id = next_id (map oi_id (order_items d)), order_id = oid,
                                product_id = p_id product, quantity = q,
                                unit_price = price product\<rparr>],
                            products :=
                              set_stock (products d) k (max 0 (stock_quantity product - q))\<rparr>,
                          tot + price product * of_int q)
                       else Inl OverflowError)))
      else add_order_loop oid rest (d, tot))"

text \<open>
  The POST branch of \<open>add_order\<close>. The order row is written with the total the loop
  computed; the flush before the loop is where a customer key outside 64 bits cannot be
  bound and where a repeated order number fails the unique constraint.
\<close>

definition add_order :: "env \<Rightarrow> form \<Rightarrow> db \<Rightarrow> error + db" where
  "add_order e f d =
     (case form_get f ''customer_id'' of
        None \<Rightarrow> Inl BadRequestKeyError
      | Some c \<Rightarrow>
          (case py_int c of
             None \<Rightarrow> Inl ValueError
           | Some cid \<Rightarrow>
               (let order = \<lparr>o_id = next_id (map o_id (orders d)),
                             order_number = generate_order_number e, customer_id = cid,
                             status = ''pending'', total_amount = 0, created_at = utcnow e,
                             created_by = Some (current_user_id e)\<rparr>
                in if \<not> int64 cid then Inl OverflowError
                   else if order_number order \<in> set (map order_number (orders d))
                   then Inl IntegrityError
                   else
                     (case add_order_loop (o_id order)
                             (zip (form_getlist f ''product_id[]'') (form_getlist f ''quantity[]''))
                             (d, 0) of
                        Inl err \<Rightarrow> Inl err
                      | Inr (d1, tot) \<Rightarrow>
                          Inr (d1\<lparr>orders := orders d1 @ [order\<lparr>total_amount := tot\<rparr>],
                                 transactions := transactions d1 @
                                   [\<lparr>t_id = next_id (map t_id (transactions d1)),
                                     transaction_type = ''income'',
                                     t_category = Some ''Sales'', amount = tot,
                                     t_description = Some (''Order '' @ order_number order),
                                     reference = Some (order_number order),
                                     t_date = dt_date (now e), t_created_at = utcnow e,
                                     t_created_by = Some (current_user_id e)\<rparr>]\<rparr>)))))"

subsection \<open>Order life cycle\<close>

text \<open>
  \<open>Order.query.get_or_404(k)\<close> answers 404 for a key that no order has; for such a key
  outside 64 bits the lookup itself raises \<open>OverflowError\<close>.
\<close>

definition update_order_status :: "int \<Rightarrow> form \<Rightarrow> db \<Rightarrow> error + db" where
  "update_order_status k f d =
     (case get_order (orders d) k of
        None \<Rightarrow> Inl (if int64 k then NotFound else OverflowError)
      | Some order \<Rightarrow>
          (case form_get f ''status'' of
             None \<Rightarrow> Inr d
           | Some new_status \<Rightarrow>
               if new_status \<in> set [''pending'', ''confirmed'', ''shipped'', ''delivered'', ''cancelled'']
               then Inr (d\<lparr>orders :=
                      map (\<lambda>x. if o_id x = k then x\<lparr>status := new_status\<rparr> else x) (orders d)\<rparr>)
               else Inr d))"

text \<open>
  \<open>delete_order\<close>: the relationship \<open>Order.items\<close> cascades the deletion to the items
  whose \<open>order_id\<close> is the order's key.
\<close>

definition delete_order :: "int \<Rightarrow> db \<Rightarrow> error + db" where
  "delete_order k d =
     (case get_order (orders d) k of
        None \<Rightarrow> Inl (if int64 k then NotFound else OverflowError)
      | Some order \<Rightarrow>
          Inr (d\<lparr>orders := filter (\<lambda>x. o_id x \<noteq> k) (orders d),
                 order_items := filter (\<lambda>i. order_id i \<noteq> k) (order_items d)\<rparr>))"

subsection \<open>Sequences of requests\<close>

text \<open>
  A request that ends in an exception commits nothing, so the database after it is the
  database before it.
\<close>

datatype request = AddOrder env form | AdjustStock int form

definition handle :: "db \<Rightarrow> request \<Rightarrow> db" where
  "handle d r =
     (case (case r of AddOrder e f \<Rightarrow> add_order e f d | AdjustStock k f \<Rightarrow> adjust_stock k f d) of
        Inl err \<Rightarrow> d
      | Inr d' \<Rightarrow> d')"

subsection \<open>Dashboard aggregates\<close>

record sales_point =
  sp_date :: string
  sales :: real

text \<open>
  The query of \<open>get_sales_chart_data\<close> for one day, \<open>func.sum(Order.total_amount)\<close>
  over the orders created on that date and not cancelled, with \<open>or 0\<close> for no row.
\<close>

definition daily_sales :: "db \<Rightarrow> date \<Rightarrow> real" where
  "daily_sales d date =
     sum_list (map total_amount
       (filter (\<lambda>x. dt_date (created_at x) = date \<and> status x \<noteq> ''cancelled'') (orders d)))"

definition get_sales_chart_data :: "datetime \<Rightarrow> db \<Rightarrow> sales_point list" where
  "get_sales_chart_data today d =
     map (\<lambda>i.
            let date = date_minus (dt_date today) i
            in \<lparr>sp_date = strftime_b_d date, sales = round2 (daily_sales d date)\<rparr>)
         [6, 5, 4, 3, 2, 1, 0]"

record top_product =
  tp_name :: string
  sold :: int

text \<open>
  \<open>get_top_products\<close>: the join of products with their order items, one group per
  product (the grouping key is the primary key), ordered by the summed quantity,
  largest first, and cut at five rows. SQLite leaves the order of rows with equal sums
  open, so the ordering it applies is the parameter \<open>order_by\<close> of the model; all that
  is known of it is \<open>sum_desc\<close>: it returns the rows it is given, each as often as it
  was given, with the sums descending. SQLite adds the quantities of a group in 64 bits,
  in an order of its choice, and the query fails when a partial sum leaves them; that
  cannot happen on a database with \<open>sales_stored\<close>, where the absolute values of the
  quantities of each product add up to less than \<open>2 ^ 63\<close>, and it is on such
  databases that the model is the query.
\<close>

definition total_sold :: "db \<Rightarrow> int \<Rightarrow> int" where
  "total_sold d k = sum_list (map quantity (filter (\<lambda>i. product_id i = k) (order_items d)))"

definition sales_stored :: "db \<Rightarrow> bool" where
  "sales_stored d =
     list_all (\<lambda>p. sum_list (map (\<lambda>i. \<bar>quantity i\<bar>)
                       (filter (\<lambda>i. product_id i = p_id p) (order_items d))) < 2 ^ 63)
       (products d)"

definition sum_desc :: "((string \<times> int) list \<Rightarrow> (string \<times> int) list) \<Rightarrow> bool" where
  "sum_desc order_by =
     (\<forall>rows. sorted_wrt (\<lambda>a b. snd b \<le> snd a) (order_by rows) \<and>
             (\<forall>r. count_list (order_by rows) r = count_list rows r))"

definition get_top_products ::
  "((string \<times> int) list \<Rightarrow> (string \<times> int) list) \<Rightarrow> db \<Rightarrow> top_product list" where
  "get_top_products order_by d =
     (let joined = filter (\<lambda>p. \<exists>i \<in> set (order_items d). product_id i = p_id p) (products d);
          results = map (\<lambda>p. (name p, total_sold d (p_id p))) joined;
          ordered = order_by results
      in map (\<lambda>r. \<lparr>tp_name = fst r, sold = snd r\<rparr>) (take 5 ordered))"

record month_point =
  mp_month :: string
  revenue :: real

definition get_monthly_revenue :: "datetime \<Rightarrow> db \<Rightarrow> month_point list" where
  "get_monthly_revenue today d =
     map (\<lambda>i.
            let date = date_minus (dt_date today) (i * 30);
                month_start = date\<lparr>day := 1\<rparr>;
                next_month = (if 0 < i then (date_plus month_start 32)\<lparr>day := 1\<rparr>
                              else date_plus (dt_date today) 1);
                monthly_revenue =
                  sum_list (map total_amount
                    (filter (\<lambda>x. \<not> dt_less (created_at x) (midnight month_start) \<and>
                                  dt_less (created_at x) (midnight next_month) \<and>
                                  status x \<noteq> ''cancelled'')
                       (orders d)))
            in \<lparr>mp_month = month_abbr (month month_start), revenue = round2 monthly_revenue\<rparr>)
         [5, 4, 3, 2, 1, 0]"

subsection \<open>The items of an order\<close>

text \<open>
  \<open>items_of d k\<close> is what the relationship \<open>Order.items\<close> loads for the order with
  key \<open>k\<close>; \<open>items_total\<close> is the sum of quantity times unit price over a list of
  items.
\<close>

definition items_of :: "db \<Rightarrow> int \<Rightarrow> order_item list" where
  "items_of d k = filter (\<lambda>i. order_id i = k) (order_items d)"

definition items_total :: "order_item list \<Rightarrow> real" where
  "items_total its = sum_list (map (\<lambda>i. of_int (quantity i) * unit_price i) its)"

subsection \<open>Well-formed lines and stored stock\<close>



subsection \<open>A small shop, for the concrete instances\<close>

text \<open>
  Two products, \<open>A\<close> (price 10, five in stock) and \<open>B\<close> (price 5, one in stock),
  and the databases after one and after two orders of three \<open>A\<close> and two \<open>B\<close>.
\<close>

definition demo_now :: datetime where
  "demo_now = \<lparr>dt_date = \<lparr>year = 2025, month = 3, day = 31\<rparr>, dt_micros = 0\<rparr>"

definition demo_env :: env where
  "demo_env = \<lparr>now = demo_now, utcnow = demo_now, randint = 1234, current_user_id = 1\<rparr>"

definition demo_env2 :: env where
  "demo_env2 = \<lparr>now = demo_now, utcnow = demo_now, randint = 5678, current_user_id = 1\<rparr>"

definition demo_product :: "int \<Rightarrow> string \<Rightarrow> real \<Rightarrow> int \<Rightarrow> product" where
  "demo_product k n pr st =
     \<lparr>p_id = k, name = n, sku = n, category = None, price = pr, cost = 0,
      stock_quantity = st, min_stock_level = 10, description = None, p_created_at = demo_now\<rparr>"

definition demo_order :: "int \<Rightarrow> string \<Rightarrow> real \<Rightarrow> order" where
  "demo_order k n amt = \<lparr>o_id = k, order_number = n, customer_id = 1, status = ''pending'',
      total_amount = amt, created_at = demo_now, created_by = Some 1\<rparr>"

definition demo_income :: "int \<Rightarrow> string \<Rightarrow> real \<Rightarrow> transaction" where
  "demo_income k n amt = \<lparr>t_id = k, transaction_type = ''income'', t_category = Some ''Sales'',
      amount = amt, t_description = Some (''Order '' @ n), reference = Some n,
      t_date = dt_date demo_now, t_created_at = demo_now, t_created_by = Some 1\<rparr>"

definition demo_db :: db where
  "demo_db = \<lparr>products = [demo_product 1 ''A'' 10 5, demo_product 2 ''B'' 5 1],
              orders = [], order_items = [], transactions = []\<rparr>"

definition demo_form :: form where
  "demo_form = [(''customer_id'', ''1''), (''product_id[]'', ''1''), (''quantity[]'', ''3''),
                (''product_id[]'', ''2''), (''quantity[]'', ''2'')]"

definition demo_db1 :: db where
  "demo_db1 = \<lparr>products = [demo_product 1 ''A'' 10 2, demo_product 2 ''B'' 5 0],
      orders = [demo_order 1 ''ORD-20250331-1234'' 40],
      order_items = [\<lparr>oi_id = 1, order_id = 1, product_id = 1, quantity = 3, unit_price = 10\<rparr>,
                     \<lparr>oi_id = 2, order_id = 1, product_id = 2, quantity = 2, unit_price = 5\<rparr>],
      transactions = [demo_income 1 ''ORD-20250331-1234'' 40]\<rparr>"

definition demo_db2 :: db where
  "demo_db2 = \<lparr>products = [demo_product 1 ''A'' 10 0, demo_product 2 ''B'' 5 0],
      orders = [demo_order 1 ''ORD-20250331-1234'' 40, demo_order 2 ''ORD-20250331-5678'' 40],
      order_items = [\<lparr>oi_id = 1, order_id = 1, product_id = 1, quantity = 3, unit_price = 10\<rparr>,
                     \<lparr>oi_id = 2, order_id = 1, product_id = 2, quantity = 2, unit_price = 5\<rparr>,
                     \<lparr>oi_id = 3, order_id = 2, product_id = 1, quantity = 3, unit_price = 10\<rparr>,
                     \<lparr>oi_id = 4, order_id = 2, product_id = 2, quantity = 2, unit_price = 5\<rparr>],
      transactions = [demo_income 1 ''ORD-20250331-1234'' 40, demo_income 2 ''ORD-20250331-5678'' 40]\<rparr>"

text \<open>Three requests against the shop: an order, a stock correction and a second order.\<close>

definition demo_requests :: "request list" where
  "demo_requests = [AddOrder demo_env demo_form, AdjustStock 1 [(''adjustment'', ''-100'')],
                    AddOrder demo_env2 demo_form]"



definition demo_form_empty :: form where
  "demo_form_empty = [(''customer_id'', ''1'')]"

text \<open>
  A shop with six products and two orders, the second one cancelled; every unit price
  is 1. The quantities sold are A 2, B 5, C 1, D 7, E 3 and F 4, no two of them equal.
\<close>

definition demo_item :: "int \<Rightarrow> int \<Rightarrow> int \<Rightarrow> int \<Rightarrow> order_item" where
  "demo_item k ord_key prod_key q =
     \<lparr>oi_id = k, order_id = ord_key, product_id = prod_key, quantity = q, unit_price = 1\<rparr>"

definition demo_db_six :: db where
  "demo_db_six =
     \<lparr>products = [demo_product 1 ''A'' 1 9, demo_product 2 ''B'' 1 9, demo_product 3 ''C'' 1 9,
                  demo_product 4 ''D'' 1 9, demo_product 5 ''E'' 1 9, demo_product 6 ''F'' 1 9],
      orders = [demo_order 1 ''ORD-20250331-1234'' 13,
                (demo_order 2 ''ORD-20250331-5678'' 9)\<lparr>status := ''cancelled''\<rparr>],
      order_items = [demo_item 1 1 1 1, demo_item 2 1 2 5, demo_item 3 1 4 7, demo_item 4 2 3 1,
                     demo_item 5 2 5 3, demo_item 6 2 6 4, demo_item 7 2 1 1],
      transactions = [demo_income 1 ''ORD-20250331-1234'' 13,
                      demo_income 2 ''ORD-20250331-5678'' 9]\<rparr>"

text \<open>
  A shop whose only product costs one sixteenth, before and after an order of one unit.
\<close>

definition demo_form_one :: form where
  "demo_form_one = [(''customer_id'', ''1''), (''product_id[]'', ''1''), (''quantity[]'', ''1'')]"

definition demo_db_cheap :: db where
  "demo_db_cheap = \<lparr>products = [demo_product 1 ''A'' (1 / 16) 5],
                    orders = [], order_items = [], transactions = []\<rparr>"

definition demo_db_cheap1 :: db where
  "demo_db_cheap1 =
     \<lparr>products = [demo_product 1 ''A'' (1 / 16) 4],
      orders = [demo_order 1 ''ORD-20250331-1234'' (1 / 16)],
      order_items = [\<lparr>oi_id = 1, order_id = 1, product_id = 1, quantity = 1, unit_price = 1 / 16\<rparr>],
      transactions = [demo_income 1 ''ORD-20250331-1234'' (1 / 16)]\<rparr>"

text \<open>
  A shop with two orders of the winter before the demonstration date: one unit of a
  product priced 50 ordered on 15 December 2024 and two units ordered on
  10 February 2025.
\<close>

definition demo_order_at :: "int \<Rightarrow> string \<Rightarrow> real \<Rightarrow> date \<Rightarrow> order" where
  "demo_order_at k n amt dt = (demo_order k n amt)\<lparr>created_at := midnight dt\<rparr>"

definition demo_income_at :: "int \<Rightarrow> string \<Rightarrow> real \<Rightarrow> date \<Rightarrow> transaction" where
  "demo_income_at k n amt dt = (demo_income k n amt)\<lparr>t_date := dt, t_created_at := midnight dt\<rparr>"

definition demo_db_winter :: db where
  "demo_db_winter =
     \<lparr>products = [demo_product 1 ''A'' 50 7],
      orders = [demo_order_at 1 ''ORD-20241215-1111'' 50 \<lparr>year = 2024, month = 12, day = 15\<rparr>,
                demo_order_at 2 ''ORD-20250210-2222'' 100 \<lparr>year = 2025, month = 2, day = 10\<rparr>],
      order_items = [\<lparr>oi_id = 1, order_id = 1, product_id = 1, quantity = 1, unit_price = 50\<rparr>,
                     \<lparr>oi_id = 2, order_id = 2, product_id = 1, quantity = 2, unit_price = 50\<rparr>],
      transactions =
        [demo_income_at 1 ''ORD-20241215-1111'' 50 \<lparr>year = 2024, month = 12, day = 15\<rparr>,
         demo_income_at 2 ''ORD-20250210-2222'' 100 \<lparr>year = 2025, month = 2, day = 10\<rparr>]\<rparr>"

section \<open>Properties\<close>

subsection \<open>Order status\<close>

lemma get_order_demo_db1: "get_order (orders demo_db1) 1 = Some (demo_order 1 ''ORD-20250331-1234'' 40)"
  by (simp add: get_order_def demo_db1_def demo_order_def)

text \<open>
  Claim C10. For an existing order, a status update whose submitted value is not one of
  \<open>pending\<close>, \<open>confirmed\<close>, \<open>shipped\<close>, \<open>delivered\<close>, \<open>cancelled\<close> (or that
  submits no status at all) raises nothing and returns the database as it was: the
  order's status and everything else are unchanged.
\<close>

theorem C10_unlisted_status_ignored:
  assumes "get_order (orders d) k = Some ord"
      and "form_get f ''status'' \<notin>
             Some ` set [''pending'', ''confirmed'', ''shipped'', ''delivered'', ''cancelled'']"
  shows "update_order_status k f d = Inr d"
  using assms by (auto simp: update_order_status_def split: option.splits)

theorem C10_unlisted_status_ignored_witness:
  "get_order (orders demo_db1) 1 = Some (demo_order 1 ''ORD-20250331-1234'' 40) \<and>
   form_get [(''status'', ''refunded'')] ''status'' = Some ''refunded'' \<and>
   update_order_status 1 [(''status'', ''refunded'')] demo_db1 = Inr demo_db1"
proof -
  have f: "form_get [(''status'', ''refunded'')] ''status'' = Some ''refunded''"
    by (simp add: form_get_def form_getlist_def)
  have nin: "form_get [(''status'', ''refunded'')] ''status'' \<notin>
             Some ` set [''pending'', ''confirmed'', ''shipped'', ''delivered'', ''cancelled'']"
    unfolding f by simp
  from C10_unlisted_status_ignored[OF get_order_demo_db1 nin] get_order_demo_db1 f
  show ?thesis by simp
qed

text \<open>
  Claim C6. Setting an existing order's status to \<open>cancelled\<close>, and deleting it,
  both succeed and leave the product table (so every stock quantity) and the whole
  transaction table as they were: nothing is restocked and the order's income
  transaction stays. Cancelling keeps the order items; deleting removes exactly the
  order with that key and the items whose \<open>order_id\<close> is that key.
\<close>

theorem C6_cancel_and_delete_frame:
  assumes "get_order (orders d) k = Some ord"
      and "form_get f ''status'' = Some ''cancelled''"
  shows "(\<exists>d'. update_order_status k f d = Inr d' \<and>
               products d' = products d \<and> transactions d' = transactions d \<and>
               order_items d' = order_items d) \<and>
         (\<exists>d'. delete_order k d = Inr d' \<and>
               products d' = products d \<and> transactions d' = transactions d \<and>
               orders d' = filter (\<lambda>x. o_id x \<noteq> k) (orders d) \<and>
               order_items d' = filter (\<lambda>i. order_id i \<noteq> k) (order_items d))"
  using assms by (simp add: update_order_status_def delete_order_def)

theorem C6_cancel_and_delete_frame_witness:
  "get_order (orders demo_db1) 1 = Some (demo_order 1 ''ORD-20250331-1234'' 40) \<and>
   form_get [(''status'', ''cancelled'')] ''status'' = Some ''cancelled'' \<and>
   (\<exists>d'. update_order_status 1 [(''status'', ''cancelled'')] demo_db1 = Inr d' \<and>
         products d' = products demo_db1 \<and> transactions d' = transactions demo_db1 \<and>
         order_items d' = order_items demo_db1) \<and>
   (\<exists>d'. delete_order 1 demo_db1 = Inr d' \<and>
         products d' = products demo_db1 \<and> transactions d' = transactions demo_db1 \<and>
         orders d' = [] \<and> order_items d' = [])"
proof -
  have f: "form_get [(''status'', ''cancelled'')] ''status'' = Some ''cancelled''"
    by (simp add: form_get_def form_getlist_def)
  have o: "filter (\<lambda>x. o_id x \<noteq> 1) (orders demo_db1) = []"
    by (simp add: demo_db1_def demo_order_def)
  have i: "filter (\<lambda>i. order_id i \<noteq> 1) (order_items demo_db1) = []"
    by (simp add: demo_db1_def)
  from C6_cancel_and_delete_frame[OF get_order_demo_db1 f] get_order_demo_db1 f
  show ?thesis by (simp only: o i)
qed

subsection \<open>Order creation\<close>

lemma set_stock_ids: "map p_id (set_stock ps k v) = map p_id ps"
  by (induction ps) (auto simp: set_stock_def)

lemma set_stock_prices: "map price (set_stock ps k v) = map price ps"
  by (induction ps) (auto simp: set_stock_def)

lemma get_product_id: "get_product ps k = Some p \<Longrightarrow> p_id p = k \<and> p \<in> set ps"
  by (induction ps) (auto simp: get_product_def split: if_splits)


lemma loop_Cons_cases:
  assumes "add_order_loop oid ((pid, qty) # rest) (d, t) = Inr r"
  obtains (skip) "add_order_loop oid rest (d, t) = Inr r"
    | (item) k p q where "pid \<noteq> []" "qty \<noteq> []" "py_int pid = Some k" "int64 k"
        "get_product (products d) k = Some p" "py_int qty = Some q"
        "int64 q" "int64 (max 0 (stock_quantity p - q))"
        "add_order_loop oid rest
           (d\<lparr>order_items := order_items d @
                [\<lparr>oi_id = next_id (map oi_id (order_items d)), order_id = oid,
                  product_id = p_id p, quantity = q, unit_price = price p\<rparr>],
              products := set_stock (products d) k (max 0 (stock_quantity p - q))\<rparr>,
            t + price p * of_int q) = Inr r"
  using assms by (auto simp: query_get_def split: if_splits option.splits sum.splits)

lemma loop_frame:
  "add_order_loop oid ls (d, t) = Inr (d', t') \<Longrightarrow>
     orders d' = orders d \<and> transactions d' = transactions d \<and>
     map p_id (products d') = map p_id (products d) \<and>
     map price (products d') = map price (products d)"
proof (induction ls arbitrary: d t)
  case Nil
  then show ?case by simp
next
  case (Cons a ls)
  obtain pid qty where a: "a = (pid, qty)" by (cases a)
  from Cons.prems[unfolded a] show ?case
  proof (cases rule: loop_Cons_cases)
    case skip
    then show ?thesis by (rule Cons.IH)
  next
    case (item k p q)
    from Cons.IH[OF item(9)] show ?thesis by (simp add: set_stock_ids set_stock_prices)
  qed
qed

lemma loop_items:
  "add_order_loop oid ls (d, t) = Inr (d', t') \<Longrightarrow>
     \<exists>new. order_items d' = order_items d @ new \<and>
           (\<forall>i \<in> set new. order_id i = oid \<and>
              (\<exists>p \<in> set (products d). p_id p = product_id i \<and> price p = unit_price i)) \<and>
           t' = t + sum_list (map (\<lambda>i. of_int (quantity i) * unit_price i) new)"
proof (induction ls arbitrary: d t)
  case Nil
  then show ?case by simp
next
  case (Cons a ls)
  obtain pid qty where a: "a = (pid, qty)" by (cases a)
  from Cons.prems[unfolded a] show ?case
  proof (cases rule: loop_Cons_cases)
    case skip
    then show ?thesis by (rule Cons.IH)
  next
    case (item k p q)
    define it where "it = \<lparr>oi_id = next_id (map oi_id (order_items d)), order_id = oid,
                              product_id = p_id p, quantity = q, unit_price = price p\<rparr>"
    define d1 where "d1 = d\<lparr>order_items := order_items d @ [it],
                          products := set_stock (products d) k (max 0 (stock_quantity p - q))\<rparr>"
    from item(9)
    have run: "add_order_loop oid ls (d1, t + price p * of_int q) = Inr (d', t')"
      by (simp add: d1_def it_def)
    from Cons.IH[OF run] obtain new where
      n1: "order_items d' = order_items d1 @ new" and
      n2: "\<forall>i \<in> set new. order_id i = oid \<and>
            (\<exists>p \<in> set (products d1). p_id p = product_id i \<and> price p = unit_price i)" and
      n3: "t' = t + price p * of_int q + sum_list (map (\<lambda>i. of_int (quantity i) * unit_price i) new)"
      by blast
    have same: "map (\<lambda>p. (p_id p, price p)) (products d1) = map (\<lambda>p. (p_id p, price p)) (products d)"
      by (simp add: d1_def set_stock_def comp_def)
    have n2': "\<forall>i \<in> set new. order_id i = oid \<and>
            (\<exists>p \<in> set (products d). p_id p = product_id i \<and> price p = unit_price i)"
    proof
      fix i assume i: "i \<in> set new"
      with n2 obtain p1 where "p1 \<in> set (products d1)" "p_id p1 = product_id i" "price p1 = unit_price i" "order_id i = oid"
        by blast
      then have "(product_id i, unit_price i) \<in> set (map (\<lambda>p. (p_id p, price p)) (products d1))"
        by force
      then have "(product_id i, unit_price i) \<in> set (map (\<lambda>p. (p_id p, price p)) (products d))"
        by (simp only: same)
      then show "order_id i = oid \<and>
            (\<exists>p \<in> set (products d). p_id p = product_id i \<and> price p = unit_price i)"
        using \<open>order_id i = oid\<close> by auto
    qed
    from get_product_id[OF item(5)] have pin: "p \<in> set (products d)" "p_id p = k" by auto
    have "order_items d' = order_items d @ (it # new)"
      using n1 by (simp add: d1_def)
    moreover have "\<forall>i \<in> set (it # new). order_id i = oid \<and>
            (\<exists>p \<in> set (products d). p_id p = product_id i \<and> price p = unit_price i)"
      using n2' pin by (auto simp: it_def)
    moreover have "t' = t + sum_list (map (\<lambda>i. of_int (quantity i) * unit_price i) (it # new))"
      using n3 by (simp add: it_def algebra_simps)
    ultimately show ?thesis by blast
  qed
qed

lemma demo_int64: "int64 1" "int64 2" "int64 3" "int64 0" "int64 99"
  by (simp_all add: int64_def)

lemma demo_py_int:
  "py_int ''1'' = Some 1" "py_int ''2'' = Some 2" "py_int ''3'' = Some 3"
  by code_simp+

lemma demo_order_numbers:
  "generate_order_number demo_env = ''ORD-20250331-1234''"
  "generate_order_number demo_env2 = ''ORD-20250331-5678''"
  by (simp_all add: generate_order_number_def strftime_Ymd_def zfill_def digits10.simps
        demo_env_def demo_env2_def demo_now_def)

lemma demo_env_fields:
  "now demo_env = demo_now" "utcnow demo_env = demo_now" "current_user_id demo_env = 1"
  "now demo_env2 = demo_now" "utcnow demo_env2 = demo_now" "current_user_id demo_env2 = 1"
  by (simp_all add: demo_env_def demo_env2_def)

lemma demo_form_fields:
  "form_get demo_form ''customer_id'' = Some ''1''"
  "form_getlist demo_form ''product_id[]'' = [''1'', ''2'']"
  "form_getlist demo_form ''quantity[]'' = [''3'', ''2'']"
  by (simp_all add: form_get_def form_getlist_def demo_form_def)

lemma demo_first_order: "add_order demo_env demo_form demo_db = Inr demo_db1"
  by (simp add: add_order_def demo_form_fields demo_py_int demo_order_numbers demo_int64
        query_get_def get_product_def set_stock_def next_id_def demo_db_def demo_db1_def
        demo_product_def demo_order_def demo_income_def demo_env_fields)

lemma demo_second_order: "add_order demo_env2 demo_form demo_db1 = Inr demo_db2"
  by (simp add: add_order_def demo_form_fields demo_py_int demo_order_numbers demo_int64
        query_get_def get_product_def set_stock_def next_id_def demo_db1_def demo_db2_def
        demo_product_def demo_order_def demo_income_def demo_env_fields)

lemma fold_max_ge: "a \<le> fold max ids (a::int)"
proof (induction ids arbitrary: a)
  case Nil
  then show ?case by simp
next
  case (Cons y ids)
  have "a \<le> max y a" by simp
  also have "max y a \<le> fold max ids (max y a)" by (rule Cons.IH)
  finally show ?case by simp
qed

lemma fold_max_upper: "x \<in> set ids \<Longrightarrow> x \<le> fold max ids (a::int)"
proof (induction ids arbitrary: a)
  case Nil
  then show ?case by simp
next
  case (Cons y ids)
  show ?case
  proof (cases "x = y")
    case True
    have "max y a \<le> fold max ids (max y a)" by (rule fold_max_ge)
    then show ?thesis using True by simp
  next
    case False
    with Cons.prems have "x \<in> set ids" by simp
    then show ?thesis by (simp add: Cons.IH)
  qed
qed

lemma next_id_fresh: "next_id ids \<notin> set ids"
proof
  assume "next_id ids \<in> set ids"
  then have "next_id ids \<le> fold max ids 0" by (rule fold_max_upper)
  then show False by (simp add: next_id_def)
qed

lemma add_order_Inr:
  assumes run: "add_order e f d = Inr d'"
  obtains c cid d1 tot where
    "form_get f ''customer_id'' = Some c" "py_int c = Some cid" "int64 cid"
    "generate_order_number e \<notin> order_number ` set (orders d)"
    "add_order_loop (next_id (map o_id (orders d)))
       (zip (form_getlist f ''product_id[]'') (form_getlist f ''quantity[]'')) (d, 0) = Inr (d1, tot)"
    "d' = d1\<lparr>orders := orders d1 @
              [\<lparr>o_id = next_id (map o_id (orders d)), order_number = generate_order_number e,
                customer_id = cid, status = ''pending'', total_amount = tot, created_at = utcnow e,
                created_by = Some (current_user_id e)\<rparr>],
            transactions := transactions d1 @
              [\<lparr>t_id = next_id (map t_id (transactions d1)), transaction_type = ''income'',
                t_category = Some ''Sales'', amount = tot,
                t_description = Some (''Order '' @ generate_order_number e),
                reference = Some (generate_order_number e),
                t_date = dt_date (now e), t_created_at = utcnow e,
                t_created_by = Some (current_user_id e)\<rparr>]\<rparr>"
proof -
  from run obtain c where c: "form_get f ''customer_id'' = Some c"
    by (cases "form_get f ''customer_id''") (simp_all add: add_order_def)
  from run c obtain cid where cid: "py_int c = Some cid"
    by (cases "py_int c") (simp_all add: add_order_def)
  from run c cid have i64: "int64 cid"
    by (cases "int64 cid") (simp_all add: add_order_def Let_def)
  from run c cid i64 have fresh: "generate_order_number e \<notin> order_number ` set (orders d)"
    by (cases "generate_order_number e \<in> order_number ` set (orders d)")
       (simp_all add: add_order_def Let_def)
  define r where "r = add_order_loop (next_id (map o_id (orders d)))
       (zip (form_getlist f ''product_id[]'') (form_getlist f ''quantity[]'')) (d, 0)"
  from run c cid i64 fresh obtain d1 tot where r: "r = Inr (d1, tot)"
    by (cases r) (auto simp: add_order_def Let_def r_def[symmetric])
  from run c cid i64 fresh r have "d' = d1\<lparr>orders := orders d1 @
              [\<lparr>o_id = next_id (map o_id (orders d)), order_number = generate_order_number e,
                customer_id = cid, status = ''pending'', total_amount = tot, created_at = utcnow e,
                created_by = Some (current_user_id e)\<rparr>],
            transactions := transactions d1 @
              [\<lparr>t_id = next_id (map t_id (transactions d1)), transaction_type = ''income'',
                t_category = Some ''Sales'', amount = tot,
                t_description = Some (''Order '' @ generate_order_number e),
                reference = Some (generate_order_number e),
                t_date = dt_date (now e), t_created_at = utcnow e,
                t_created_by = Some (current_user_id e)\<rparr>]\<rparr>"
    by (simp add: add_order_def Let_def r_def[symmetric])
  with c cid i64 fresh r show thesis
    using that unfolding r_def by blast
qed

text \<open>
  Claim C1. Whenever \<open>add_order\<close> commits, on a database whose order items all belong
  to existing orders, it has appended exactly one order and exactly one transaction.
  The order's \<open>total_amount\<close> is the sum of quantity times unit price over the
  order's items, each unit price being the price of the item's product when the order
  was placed; the transaction is of type \<open>income\<close>, its reference is the order's
  order number and its amount is the order's \<open>total_amount\<close>.
\<close>

theorem C1_total_and_income_transaction:
  assumes run: "add_order e f d = Inr d'"
      and ref: "\<forall>i \<in> set (order_items d). order_id i \<in> o_id ` set (orders d)"
  shows "\<exists>ord txn.
           orders d' = orders d @ [ord] \<and>
           transactions d' = transactions d @ [txn] \<and>
           total_amount ord = items_total (items_of d' (o_id ord)) \<and>
           (\<forall>i \<in> set (items_of d' (o_id ord)).
              \<exists>p \<in> set (products d). p_id p = product_id i \<and> unit_price i = price p) \<and>
           transaction_type txn = ''income'' \<and>
           reference txn = Some (order_number ord) \<and>
           amount txn = total_amount ord"
proof -
  define oid where "oid = next_id (map o_id (orders d))"
  from run obtain c cid d1 tot where
    loop: "add_order_loop oid
       (zip (form_getlist f ''product_id[]'') (form_getlist f ''quantity[]'')) (d, 0) = Inr (d1, tot)"
    and d': "d' = d1\<lparr>orders := orders d1 @
              [\<lparr>o_id = oid, order_number = generate_order_number e,
                customer_id = cid, status = ''pending'', total_amount = tot, created_at = utcnow e,
                created_by = Some (current_user_id e)\<rparr>],
            transactions := transactions d1 @
              [\<lparr>t_id = next_id (map t_id (transactions d1)), transaction_type = ''income'',
                t_category = Some ''Sales'', amount = tot,
                t_description = Some (''Order '' @ generate_order_number e),
                reference = Some (generate_order_number e),
                t_date = dt_date (now e), t_created_at = utcnow e,
                t_created_by = Some (current_user_id e)\<rparr>]\<rparr>"
    unfolding oid_def by (rule add_order_Inr)
  from loop_frame[OF loop] have fr: "orders d1 = orders d" "transactions d1 = transactions d"
    by auto
  from loop_items[OF loop] obtain new where
    new: "order_items d1 = order_items d @ new"
    and newp: "\<forall>i \<in> set new. order_id i = oid \<and>
              (\<exists>p \<in> set (products d). p_id p = product_id i \<and> price p = unit_price i)"
    and tot: "tot = sum_list (map (\<lambda>i. of_int (quantity i) * unit_price i) new)"
    by auto
  have fresh: "oid \<notin> o_id ` set (orders d)"
    using next_id_fresh[of "map o_id (orders d)"] by (simp add: oid_def)
  have old: "filter (\<lambda>i. order_id i = oid) (order_items d) = []"
    using ref fresh by (auto simp: filter_empty_conv)
  have mine: "filter (\<lambda>i. order_id i = oid) new = new"
    using newp by (auto simp: filter_id_conv)
  have "order_items d' = order_items d1" by (simp add: d')
  then have its: "items_of d' oid = new"
    by (simp add: items_of_def new old mine)
  define ord where "ord = \<lparr>o_id = oid, order_number = generate_order_number e,
                customer_id = cid, status = ''pending'', total_amount = tot, created_at = utcnow e,
                created_by = Some (current_user_id e)\<rparr>"
  define txn where "txn = \<lparr>t_id = next_id (map t_id (transactions d1)), transaction_type = ''income'',
                t_category = Some ''Sales'', amount = tot,
                t_description = Some (''Order '' @ generate_order_number e),
                reference = Some (generate_order_number e),
                t_date = dt_date (now e), t_created_at = utcnow e,
                t_created_by = Some (current_user_id e)\<rparr>"
  have d'': "d' = d1\<lparr>orders := orders d1 @ [ord], transactions := transactions d1 @ [txn]\<rparr>"
    by (simp only: d' ord_def txn_def)
  have oid: "o_id ord = oid" by (simp add: ord_def)
  have 1: "orders d' = orders d @ [ord]" by (simp add: d'' fr)
  have 2: "transactions d' = transactions d @ [txn]" by (simp add: d'' fr)
  have 3: "total_amount ord = items_total (items_of d' (o_id ord))"
    by (simp only: oid its) (simp add: ord_def items_total_def tot)
  have 4: "\<forall>i \<in> set (items_of d' (o_id ord)).
              \<exists>p \<in> set (products d). p_id p = product_id i \<and> unit_price i = price p"
    using newp by (simp only: oid its) metis
  have 5: "transaction_type txn = ''income''" by (simp add: txn_def)
  have 6: "reference txn = Some (order_number ord)" by (simp add: txn_def ord_def)
  have 7: "amount txn = total_amount ord" by (simp add: txn_def ord_def)
  from 1 2 3 4 5 6 7 show ?thesis by blast
qed

theorem C1_total_and_income_transaction_witness:
  "add_order demo_env2 demo_form demo_db1 = Inr demo_db2 \<and>
   list_all (\<lambda>i. order_id i \<in> o_id ` set (orders demo_db1)) (order_items demo_db1) \<and>
   (\<exists>ord txn.
      orders demo_db2 = orders demo_db1 @ [ord] \<and>
      transactions demo_db2 = transactions demo_db1 @ [txn] \<and>
      total_amount ord = items_total (items_of demo_db2 (o_id ord)) \<and>
      transaction_type txn = ''income'' \<and>
      reference txn = Some (order_number ord) \<and>
      amount txn = total_amount ord)"
proof -
  have ref: "\<forall>i \<in> set (order_items demo_db1). order_id i \<in> o_id ` set (orders demo_db1)"
    by (simp add: demo_db1_def demo_order_def)
  from C1_total_and_income_transaction[OF demo_second_order ref] ref demo_second_order
  show ?thesis by (simp add: list_all_iff) blast
qed

subsection \<open>Stock\<close>


lemma set_stock_nonneg:
  assumes "\<forall>p \<in> set ps. 0 \<le> stock_quantity p" and "0 \<le> v"
  shows "\<forall>p \<in> set (set_stock ps k v). 0 \<le> stock_quantity p"
  using assms by (auto simp: set_stock_def)

lemma loop_stock_nonneg:
  "add_order_loop oid ls (d, t) = Inr (d', t') \<Longrightarrow>
   \<forall>p \<in> set (products d). 0 \<le> stock_quantity p \<Longrightarrow>
   \<forall>p \<in> set (products d'). 0 \<le> stock_quantity p"
proof (induction ls arbitrary: d t)
  case Nil
  then show ?case by simp
next
  case (Cons a ls)
  obtain pid qty where a: "a = (pid, qty)" by (cases a)
  from Cons.prems(1)[unfolded a] show ?case
  proof (cases rule: loop_Cons_cases)
    case skip
    then show ?thesis using Cons.IH Cons.prems(2) by blast
  next
    case (item k p q)
    have "\<forall>x \<in> set (set_stock (products d) k (max 0 (stock_quantity p - q))). 0 \<le> stock_quantity x"
      using Cons.prems(2) by (intro set_stock_nonneg) simp_all
    then show ?thesis using Cons.IH[OF item(9)] by simp
  qed
qed

lemma add_order_stock_nonneg:
  assumes "add_order e f d = Inr d'" and "\<forall>p \<in> set (products d). 0 \<le> stock_quantity p"
  shows "\<forall>p \<in> set (products d'). 0 \<le> stock_quantity p"
proof -
  from assms(1) obtain c cid d1 tot where
    loop: "add_order_loop (next_id (map o_id (orders d)))
       (zip (form_getlist f ''product_id[]'') (form_getlist f ''quantity[]'')) (d, 0) = Inr (d1, tot)"
    and d': "d' = d1\<lparr>orders := orders d1 @
              [\<lparr>o_id = next_id (map o_id (orders d)), order_number = generate_order_number e,
                customer_id = cid, status = ''pending'', total_amount = tot, created_at = utcnow e,
                created_by = Some (current_user_id e)\<rparr>],
            transactions := transactions d1 @
              [\<lparr>t_id = next_id (map t_id (transactions d1)), transaction_type = ''income'',
                t_category = Some ''Sales'', amount = tot,
                t_description = Some (''Order '' @ generate_order_number e),
                reference = Some (generate_order_number e),
                t_date = dt_date (now e), t_created_at = utcnow e,
                t_created_by = Some (current_user_id e)\<rparr>]\<rparr>"
    by (rule add_order_Inr)
  have "products d' = products d1" by (simp add: d')
  with loop_stock_nonneg[OF loop assms(2)] show ?thesis by simp
qed

lemma adjust_stock_Inr:
  assumes run: "adjust_stock k f d = Inr d'"
  obtains p a where "int64 k" "get_product (products d) k = Some p"
    "(case form_get f ''adjustment'' of None \<Rightarrow> Some 0 | Some s \<Rightarrow> py_int s) = Some a"
    "int64 (max 0 (stock_quantity p + a))"
    "d' = d\<lparr>products := set_stock (products d) k (max 0 (stock_quantity p + a))\<rparr>"
proof -
  from run have k: "int64 k"
    by (cases "int64 k") (simp_all add: adjust_stock_def query_get_def)
  from run k obtain p where p: "get_product (products d) k = Some p"
    by (cases "get_product (products d) k") (simp_all add: adjust_stock_def query_get_def)
  from run k p obtain a where
    a: "(case form_get f ''adjustment'' of None \<Rightarrow> Some 0 | Some s \<Rightarrow> py_int s) = Some a"
    by (cases "case form_get f ''adjustment'' of None \<Rightarrow> Some 0 | Some s \<Rightarrow> py_int s")
       (simp_all add: adjust_stock_def query_get_def)
  from run k p a have v: "int64 (max 0 (stock_quantity p + a))"
    by (cases "int64 (max 0 (stock_quantity p + a))")
       (simp_all add: adjust_stock_def query_get_def Let_def)
  from run k p a v
  have "d' = d\<lparr>products := set_stock (products d) k (max 0 (stock_quantity p + a))\<rparr>"
    by (simp add: adjust_stock_def query_get_def Let_def)
  with k p a v show thesis using that by blast
qed

lemma adjust_stock_nonneg:
  assumes "adjust_stock k f d = Inr d'" and "\<forall>p \<in> set (products d). 0 \<le> stock_quantity p"
  shows "\<forall>p \<in> set (products d'). 0 \<le> stock_quantity p"
proof -
  from assms(1) obtain p a where
    "int64 k" "get_product (products d) k = Some p"
    "(case form_get f ''adjustment'' of None \<Rightarrow> Some 0 | Some s \<Rightarrow> py_int s) = Some a"
    "int64 (max 0 (stock_quantity p + a))"
    and d': "d' = d\<lparr>products := set_stock (products d) k (max 0 (stock_quantity p + a))\<rparr>"
    by (rule adjust_stock_Inr)
  have "\<forall>x \<in> set (set_stock (products d) k (max 0 (stock_quantity p + a))). 0 \<le> stock_quantity x"
    using assms(2) by (intro set_stock_nonneg) simp_all
  then show ?thesis by (simp add: d')
qed

lemma handle_stock_nonneg:
  assumes "\<forall>p \<in> set (products d). 0 \<le> stock_quantity p"
  shows "\<forall>p \<in> set (products (handle d r)). 0 \<le> stock_quantity p"
proof (cases r)
  case (AddOrder e f)
  show ?thesis
  proof (cases "add_order e f d")
    case (Inl err)
    then show ?thesis using assms AddOrder by (simp add: handle_def)
  next
    case (Inr d')
    from add_order_stock_nonneg[OF Inr assms] show ?thesis using AddOrder Inr by (simp add: handle_def)
  qed
next
  case (AdjustStock k f)
  show ?thesis
  proof (cases "adjust_stock k f d")
    case (Inl err)
    then show ?thesis using assms AdjustStock by (simp add: handle_def)
  next
    case (Inr d')
    from adjust_stock_nonneg[OF Inr assms] show ?thesis using AdjustStock Inr by (simp add: handle_def)
  qed
qed

lemma foldl_handle_stock_nonneg:
  "\<forall>p \<in> set (products d). 0 \<le> stock_quantity p \<Longrightarrow>
   \<forall>p \<in> set (products (foldl handle d rs)). 0 \<le> stock_quantity p"
proof (induction rs arbitrary: d)
  case Nil
  then show ?case by simp
next
  case (Cons r rs)
  from handle_stock_nonneg[OF Cons.prems] have "\<forall>p \<in> set (products (handle d r)). 0 \<le> stock_quantity p" .
  from Cons.IH[OF this] show ?case by simp
qed

lemma demo_adjust:
  "adjust_stock 1 [(''adjustment'', ''-100'')] demo_db1 =
     Inr (demo_db1\<lparr>products := [demo_product 1 ''A'' 10 0, demo_product 2 ''B'' 5 0]\<rparr>)"
proof -
  have "py_int ''-100'' = Some (- 100)" by code_simp
  then show ?thesis
    by (simp add: adjust_stock_def form_get_def form_getlist_def query_get_def get_product_def
          set_stock_def demo_int64 demo_db1_def demo_product_def)
qed

text \<open>
  Claim C2. Starting from a database in which no product has a negative stock
  quantity, after any number of order-creation and stock-adjustment requests (each
  committed or failed), no product has a negative stock quantity: \<open>take n rs\<close> is any
  prefix of the sequence of requests.
\<close>

theorem C2_stock_never_negative:
  assumes "\<forall>p \<in> set (products d). 0 \<le> stock_quantity p"
  shows "\<forall>p \<in> set (products (foldl handle d (take n rs))). 0 \<le> stock_quantity p"
  using assms by (rule foldl_handle_stock_nonneg)

theorem C2_stock_never_negative_witness:
  "list_all (\<lambda>p. 0 \<le> stock_quantity p) (products demo_db) \<and>
   list_all (\<lambda>p. 0 \<le> stock_quantity p) (products (foldl handle demo_db (take 2 demo_requests))) \<and>
   map stock_quantity (products (foldl handle demo_db (take 2 demo_requests))) = [0, 0]"
proof -
  have h: "\<forall>p \<in> set (products demo_db). 0 \<le> stock_quantity p"
    by (simp add: demo_db_def demo_product_def)
  have run: "foldl handle demo_db (take 2 demo_requests) =
      demo_db1\<lparr>products := [demo_product 1 ''A'' 10 0, demo_product 2 ''B'' 5 0]\<rparr>"
    by (simp add: demo_requests_def handle_def demo_first_order demo_adjust)
  from C2_stock_never_negative[OF h, of 2 demo_requests] h
  show ?thesis by (simp add: list_all_iff run demo_product_def)
qed











subsection \<open>Line items\<close>




lemma demo_empty_order:
  "add_order demo_env demo_form_empty demo_db =
     Inr (demo_db\<lparr>orders := [demo_order 1 ''ORD-20250331-1234'' 0],
                  transactions := [demo_income 1 ''ORD-20250331-1234'' 0]\<rparr>)"
  by (simp add: add_order_def form_get_def form_getlist_def demo_form_empty_def demo_py_int
        demo_int64 demo_order_numbers next_id_def demo_db_def demo_order_def demo_income_def
        demo_env_fields)



text \<open>
  Claim C3, as stated, fails: \<open>add_order\<close> has no check of its line items. With no
  line at all the request is accepted; an order of total 0 and an income transaction of
  amount 0 are committed.
\<close>

theorem C3_empty_order_counterexample:
  "zip (form_getlist demo_form_empty ''product_id[]'') (form_getlist demo_form_empty ''quantity[]'') = [] \<and>
   add_order demo_env demo_form_empty demo_db =
     Inr (demo_db\<lparr>orders := [demo_order 1 ''ORD-20250331-1234'' 0],
                  transactions := [demo_income 1 ''ORD-20250331-1234'' 0]\<rparr>)"
  using demo_empty_order by (simp add: form_getlist_def demo_form_empty_def)

text \<open>
  Claim C3, amended. A request with no line item, a customer key that is a number
  within 64 bits and an unused order number is accepted: exactly one order, \<open>pending\<close>
  with \<open>total_amount\<close> 0, and exactly one income transaction of amount 0 whose
  reference is the order number are appended; products (so stock) and order items are
  unchanged.
\<close>

theorem C3_empty_order_is_created:
  assumes "zip (form_getlist f ''product_id[]'') (form_getlist f ''quantity[]'') = []"
      and "form_get f ''customer_id'' = Some c"
      and "py_int c = Some cid"
      and "int64 cid"
      and "generate_order_number e \<notin> order_number ` set (orders d)"
  shows "\<exists>ord txn.
           add_order e f d =
             Inr (d\<lparr>orders := orders d @ [ord], transactions := transactions d @ [txn]\<rparr>) \<and>
           total_amount ord = 0 \<and> status ord = ''pending'' \<and>
           transaction_type txn = ''income'' \<and> amount txn = 0 \<and>
           reference txn = Some (order_number ord)"
proof -
  define ord where "ord = \<lparr>o_id = next_id (map o_id (orders d)),
      order_number = generate_order_number e, customer_id = cid, status = ''pending'',
      total_amount = 0, created_at = utcnow e, created_by = Some (current_user_id e)\<rparr>"
  define txn where "txn = \<lparr>t_id = next_id (map t_id (transactions d)),
      transaction_type = ''income'', t_category = Some ''Sales'', amount = 0,
      t_description = Some (''Order '' @ generate_order_number e),
      reference = Some (generate_order_number e), t_date = dt_date (now e),
      t_created_at = utcnow e, t_created_by = Some (current_user_id e)\<rparr>"
  have run: "add_order e f d =
      Inr (d\<lparr>orders := orders d @ [ord], transactions := transactions d @ [txn]\<rparr>)"
    unfolding add_order_def assms(1) using assms(2-5) by (simp add: Let_def ord_def txn_def)
  have "total_amount ord = 0 \<and> status ord = ''pending'' \<and>
        transaction_type txn = ''income'' \<and> amount txn = 0 \<and>
        reference txn = Some (order_number ord)"
    by (simp add: ord_def txn_def)
  with run show ?thesis by blast
qed

theorem C3_empty_order_is_created_witness:
  "zip (form_getlist demo_form_empty ''product_id[]'') (form_getlist demo_form_empty ''quantity[]'') = [] \<and>
   form_get demo_form_empty ''customer_id'' = Some ''1'' \<and> py_int ''1'' = Some 1 \<and> int64 1 \<and>
   (\<exists>ord txn.
      add_order demo_env demo_form_empty demo_db =
        Inr (demo_db\<lparr>orders := orders demo_db @ [ord],
                     transactions := transactions demo_db @ [txn]\<rparr>) \<and>
      total_amount ord = 0 \<and> status ord = ''pending'' \<and>
      transaction_type txn = ''income'' \<and> amount txn = 0 \<and>
      reference txn = Some (order_number ord))"
proof -
  have l: "zip (form_getlist demo_form_empty ''product_id[]'')
              (form_getlist demo_form_empty ''quantity[]'') = []"
    by (simp add: form_getlist_def demo_form_empty_def)
  have c: "form_get demo_form_empty ''customer_id'' = Some ''1''"
    by (simp add: form_get_def form_getlist_def demo_form_empty_def)
  have fresh: "generate_order_number demo_env \<notin> order_number ` set (orders demo_db)"
    by (simp add: demo_db_def)
  from C3_empty_order_is_created[OF l c demo_py_int(1) demo_int64(1) fresh] l c demo_py_int(1)
    demo_int64(1)
  show ?thesis by blast
qed

subsection \<open>Top products\<close>

lemma sum_single_order:
  "distinct (map o_id os) \<Longrightarrow> y \<in> o_id ` set os \<Longrightarrow>
   (\<Sum>x\<leftarrow>os. if y = o_id x then c else 0) = (c::int)"
proof (induction os)
  case Nil
  then show ?case by simp
next
  case (Cons a os)
  show ?case
  proof (cases "y = o_id a")
    case True
    with Cons.prems(1) have "\<forall>x \<in> set os. y \<noteq> o_id x" by auto
    then have "(\<Sum>x\<leftarrow>os. if y = o_id x then c else 0) = (\<Sum>x\<leftarrow>os. 0)"
      by (intro arg_cong[where f = sum_list] map_cong) auto
    then show ?thesis using True by simp
  next
    case False
    with Cons.prems have "distinct (map o_id os)" "y \<in> o_id ` set os" by auto
    from Cons.IH[OF this] show ?thesis using False by simp
  qed
qed

lemma sum_by_order:
  "distinct (map o_id os) \<Longrightarrow> \<forall>i \<in> set its. order_id i \<in> o_id ` set os \<Longrightarrow>
   (\<Sum>x\<leftarrow>os. \<Sum>i\<leftarrow>filter (\<lambda>i. order_id i = o_id x) its. quantity i) = (\<Sum>i\<leftarrow>its. quantity i)"
proof (induction its)
  case Nil
  then show ?case by simp
next
  case (Cons i its)
  have split: "(\<Sum>j\<leftarrow>filter (\<lambda>i. order_id i = o_id x) (i # its). quantity j) =
        (if order_id i = o_id x then quantity i else 0) +
        (\<Sum>j\<leftarrow>filter (\<lambda>i. order_id i = o_id x) its. quantity j)" for x
    by simp
  have "(\<Sum>x\<leftarrow>os. \<Sum>j\<leftarrow>filter (\<lambda>i. order_id i = o_id x) (i # its). quantity j) =
        (\<Sum>x\<leftarrow>os. if order_id i = o_id x then quantity i else 0) +
        (\<Sum>x\<leftarrow>os. \<Sum>j\<leftarrow>filter (\<lambda>i. order_id i = o_id x) its. quantity j)"
    by (simp only: split sum_list_addf)
  also have "(\<Sum>x\<leftarrow>os. if order_id i = o_id x then quantity i else 0) = quantity i"
    using Cons.prems by (intro sum_single_order) auto
  also have "(\<Sum>x\<leftarrow>os. \<Sum>j\<leftarrow>filter (\<lambda>i. order_id i = o_id x) its. quantity j) =
        (\<Sum>j\<leftarrow>its. quantity j)"
    using Cons.prems by (intro Cons.IH) auto
  finally show ?case by simp
qed

lemma total_sold_over_orders:
  assumes "distinct (map o_id (orders d))"
      and "\<forall>i \<in> set (order_items d). order_id i \<in> o_id ` set (orders d)"
  shows "total_sold d k =
         (\<Sum>x\<leftarrow>orders d. \<Sum>i\<leftarrow>filter (\<lambda>i. product_id i = k) (items_of d (o_id x)). quantity i)"
proof -
  let ?its = "filter (\<lambda>i. product_id i = k) (order_items d)"
  have comm: "filter (\<lambda>i. product_id i = k) (items_of d (o_id x)) =
              filter (\<lambda>i. order_id i = o_id x) ?its" for x
    by (simp add: items_of_def conj_commute)
  have "\<forall>i \<in> set ?its. order_id i \<in> o_id ` set (orders d)" using assms(2) by simp
  from sum_by_order[OF assms(1) this] show ?thesis
    by (simp only: comm total_sold_def)
qed

lemma count_list_insort_key:
  "count_list (insort_key f x xs) r = count_list (x # xs) r"
  by (induction xs) auto

lemma count_list_sort_key: "count_list (sort_key f xs) r = count_list xs r"
  by (induction xs) (simp_all add: sort_key_def count_list_insort_key)

lemma sum_desc_sort_key: "sum_desc (sort_key (\<lambda>r. - snd r))"
proof -
  have "sorted_wrt (\<lambda>a b. snd b \<le> snd a) (sort_key (\<lambda>r. - snd r) rows)"
    for rows :: "(string \<times> int) list"
  proof -
    have "sorted (map (\<lambda>r. - snd r) (sort_key (\<lambda>r. - snd r) rows))" by (rule sorted_sort_key)
    then show ?thesis by (simp add: sorted_map)
  qed
  then show ?thesis by (simp add: sum_desc_def count_list_sort_key)
qed

lemma sum_desc_set: "sum_desc order_by \<Longrightarrow> set (order_by rows) = set rows"
proof -
  assume a: "sum_desc order_by"
  have "(r \<in> set (order_by rows)) = (r \<in> set rows)" for r
  proof -
    from a have "count_list (order_by rows) r = count_list rows r"
      unfolding sum_desc_def by blast
    then have "(count_list (order_by rows) r = 0) = (count_list rows r = 0)" by simp
    then show ?thesis by (simp only: count_list_0_iff) blast
  qed
  then show ?thesis by blast
qed

lemma top_products_length: "length (get_top_products order_by d) \<le> 5"
  by (simp add: get_top_products_def Let_def)

lemma top_products_sorted:
  assumes "sum_desc order_by"
  shows "sorted_wrt (\<lambda>a b. sold b \<le> sold a) (get_top_products order_by d)"
proof -
  let ?res = "map (\<lambda>p. (name p, total_sold d (p_id p)))
       (filter (\<lambda>p. \<exists>i \<in> set (order_items d). product_id i = p_id p) (products d))"
  from assms have "sorted_wrt (\<lambda>a b. snd b \<le> snd a) (order_by ?res)"
    by (simp add: sum_desc_def)
  then have "sorted_wrt (\<lambda>a b. snd b \<le> snd a) (take 5 (order_by ?res))"
    by (rule sorted_wrt_take)
  then show ?thesis
    by (simp add: get_top_products_def Let_def sorted_wrt_map)
qed

lemma top_products_entries:
  assumes "sum_desc order_by"
  shows "\<forall>r \<in> set (get_top_products order_by d).
     \<exists>p \<in> set (products d). tp_name r = name p \<and> sold r = total_sold d (p_id p)"
proof
  let ?res = "map (\<lambda>p. (name p, total_sold d (p_id p)))
       (filter (\<lambda>p. \<exists>i \<in> set (order_items d). product_id i = p_id p) (products d))"
  fix r assume "r \<in> set (get_top_products order_by d)"
  then obtain x where x: "x \<in> set (take 5 (order_by ?res))"
    and r: "r = \<lparr>tp_name = fst x, sold = snd x\<rparr>"
    by (auto simp: get_top_products_def Let_def)
  from x have "x \<in> set (order_by ?res)" by (rule in_set_takeD)
  then have "x \<in> set ?res" by (simp only: sum_desc_set[OF assms])
  then obtain p where "p \<in> set (products d)" "x = (name p, total_sold d (p_id p))" by auto
  with r show "\<exists>p \<in> set (products d). tp_name r = name p \<and> sold r = total_sold d (p_id p)"
    by auto
qed

lemma top_products_ignores_orders:
  "get_top_products order_by (d\<lparr>orders := os\<rparr>) = get_top_products order_by d"
  by (simp add: get_top_products_def total_sold_def)

lemma demo_top_products:
  "get_top_products (sort_key (\<lambda>r. - snd r)) demo_db_six =
     [\<lparr>tp_name = ''D'', sold = 7\<rparr>, \<lparr>tp_name = ''B'', sold = 5\<rparr>, \<lparr>tp_name = ''F'', sold = 4\<rparr>,
      \<lparr>tp_name = ''E'', sold = 3\<rparr>, \<lparr>tp_name = ''A'', sold = 2\<rparr>]"
  by (simp add: get_top_products_def total_sold_def demo_db_six_def demo_product_def demo_item_def)

text \<open>
  Claim C9. On a database whose sums of quantities fit in 64 bits, and whatever
  ordering by descending sum the database applies,
  \<open>get_top_products\<close> returns at most five entries, ordered by \<open>sold\<close> from the
  largest down; the order among equal sums is left open. Every entry is a product's
  name with \<open>total_sold\<close> of that product, the sum of the quantities of all order items
  of the product. The order table is never read, so no status (cancelled or not)
  changes the result; and when order keys are distinct and every item belongs to an
  order, \<open>total_sold\<close> is the sum over all orders, whatever their status, of the
  quantities of the order's items of that product.
\<close>

theorem C9_top_products:
  assumes "sum_desc order_by" and "sales_stored d"
  shows "length (get_top_products order_by d) \<le> 5 \<and>
   sorted_wrt (\<lambda>a b. sold b \<le> sold a) (get_top_products order_by d) \<and>
   (\<forall>r \<in> set (get_top_products order_by d).
      \<exists>p \<in> set (products d). tp_name r = name p \<and> sold r = total_sold d (p_id p)) \<and>
   get_top_products order_by (d\<lparr>orders := os\<rparr>) = get_top_products order_by d \<and>
   (distinct (map o_id (orders d)) \<and>
    (\<forall>i \<in> set (order_items d). order_id i \<in> o_id ` set (orders d)) \<longrightarrow>
      total_sold d k =
        (\<Sum>x\<leftarrow>orders d. \<Sum>i\<leftarrow>filter (\<lambda>i. product_id i = k) (items_of d (o_id x)). quantity i))"
  using top_products_length top_products_sorted[OF assms(1)] top_products_entries[OF assms(1)]
    top_products_ignores_orders total_sold_over_orders
  by blast

theorem C9_top_products_witness:
  "sum_desc (sort_key (\<lambda>r. - snd r)) \<and> sales_stored demo_db_six \<and>
   distinct (map o_id (orders demo_db_six)) \<and>
   list_all (\<lambda>i. order_id i \<in> o_id ` set (orders demo_db_six)) (order_items demo_db_six) \<and>
   map status (orders demo_db_six) = [''pending'', ''cancelled''] \<and>
   get_top_products (sort_key (\<lambda>r. - snd r)) demo_db_six =
     [\<lparr>tp_name = ''D'', sold = 7\<rparr>, \<lparr>tp_name = ''B'', sold = 5\<rparr>, \<lparr>tp_name = ''F'', sold = 4\<rparr>,
      \<lparr>tp_name = ''E'', sold = 3\<rparr>, \<lparr>tp_name = ''A'', sold = 2\<rparr>] \<and>
   length (get_top_products (sort_key (\<lambda>r. - snd r)) demo_db_six) \<le> 5 \<and>
   sorted_wrt (\<lambda>a b. sold b \<le> sold a) (get_top_products (sort_key (\<lambda>r. - snd r)) demo_db_six) \<and>
   total_sold demo_db_six 1 = 2 \<and>
   (\<Sum>x\<leftarrow>orders demo_db_six.
      \<Sum>i\<leftarrow>filter (\<lambda>i. product_id i = 1) (items_of demo_db_six (o_id x)). quantity i) = 2"
proof -
  have h1: "distinct (map o_id (orders demo_db_six))"
    by (simp add: demo_db_six_def demo_order_def)
  have h2: "\<forall>i \<in> set (order_items demo_db_six). order_id i \<in> o_id ` set (orders demo_db_six)"
    by (simp add: demo_db_six_def demo_order_def demo_item_def)
  have st: "map status (orders demo_db_six) = [''pending'', ''cancelled'']"
    by (simp add: demo_db_six_def demo_order_def)
  have ts: "total_sold demo_db_six 1 = 2"
    by (simp add: total_sold_def demo_db_six_def demo_item_def)
  have ss: "sales_stored demo_db_six"
    by (simp add: sales_stored_def demo_db_six_def demo_product_def demo_item_def)
  note inst = C9_top_products[OF sum_desc_sort_key ss, of "orders demo_db_six" 1]
  from inst have len: "length (get_top_products (sort_key (\<lambda>r. - snd r)) demo_db_six) \<le> 5"
    by blast
  from inst have srt: "sorted_wrt (\<lambda>a b. sold b \<le> sold a)
      (get_top_products (sort_key (\<lambda>r. - snd r)) demo_db_six)"
    by blast
  from inst h1 h2 have "total_sold demo_db_six 1 =
     (\<Sum>x\<leftarrow>orders demo_db_six.
        \<Sum>i\<leftarrow>filter (\<lambda>i. product_id i = 1) (items_of demo_db_six (o_id x)). quantity i)"
    by blast
  with ts have ov: "(\<Sum>x\<leftarrow>orders demo_db_six.
        \<Sum>i\<leftarrow>filter (\<lambda>i. product_id i = 1) (items_of demo_db_six (o_id x)). quantity i) = 2"
    by simp
  from sum_desc_sort_key ss h1 h2 st demo_top_products len srt ts ov show ?thesis
    by (simp only: list_all_iff)
qed

subsection \<open>Daily sales\<close>

lemma days_in_month_pos: "1 \<le> days_in_month y m"
  by (simp add: days_in_month_def)

lemma prev_day_less: "valid_date x \<Longrightarrow> date_less (prev_day x) x"
  by (auto simp: valid_date_def prev_day_def date_less_def)

lemma next_prev_day: "valid_date x \<Longrightarrow> next_day (prev_day x) = x"
proof (cases x)
  case (fields y m dd)
  assume v: "valid_date x"
  show ?thesis
  proof (cases "1 < dd")
    case True
    with v fields have "dd - 1 < days_in_month y m" "dd - 1 + 1 = dd"
      by (auto simp: valid_date_def)
    with True fields show ?thesis
      by (simp add: prev_day_def next_day_def)
  next
    case False
    with v fields have dd: "dd = 1" by (simp add: valid_date_def)
    show ?thesis
    proof (cases "1 < m")
      case True
      with v fields have "m - 1 < 12" "m - 1 + 1 = m"
        by (auto simp: valid_date_def)
      with True fields dd show ?thesis
        by (simp add: prev_day_def next_day_def)
    next
      case False
      with v fields have m: "m = 1" by (simp add: valid_date_def)
      from v fields dd m show ?thesis
        by (simp add: valid_date_def prev_day_def next_day_def days_in_month_def)
    qed
  qed
qed

lemma round2_zero: "round2 0 = 0"
  by (simp add: round2_def round_half_even_def)

lemma daily_sales_none:
  assumes "\<forall>x \<in> set (orders d). dt_date (created_at x) = dt \<longrightarrow> status x = ''cancelled''"
  shows "daily_sales d dt = 0"
proof -
  have "filter (\<lambda>x. dt_date (created_at x) = dt \<and> status x \<noteq> ''cancelled'') (orders d) = []"
    using assms by (auto simp: filter_empty_conv)
  then show ?thesis by (simp add: daily_sales_def)
qed

lemma sales_chart_nth:
  assumes "k < 7"
  shows "get_sales_chart_data today d ! k =
         \<lparr>sp_date = strftime_b_d (date_minus (dt_date today) (6 - k)),
          sales = round2 (daily_sales d (date_minus (dt_date today) (6 - k)))\<rparr>"
proof -
  from assms have "k = 0 \<or> k = 1 \<or> k = 2 \<or> k = 3 \<or> k = 4 \<or> k = 5 \<or> k = 6" by arith
  then show ?thesis
    by (elim disjE) (simp_all add: get_sales_chart_data_def Let_def)
qed

lemma date_minus_Suc: "date_minus x (Suc n) = prev_day (date_minus x n)"
  by (simp add: date_minus_def)

lemma demo_cheap_order: "add_order demo_env demo_form_one demo_db_cheap = Inr demo_db_cheap1"
  by (simp add: add_order_def form_get_def form_getlist_def demo_form_one_def demo_py_int
        int64_def demo_order_numbers query_get_def get_product_def set_stock_def next_id_def
        demo_db_cheap_def demo_db_cheap1_def demo_product_def demo_order_def demo_income_def
        demo_env_fields)

lemma demo_cheap_daily: "daily_sales demo_db_cheap1 (dt_date demo_now) = 1 / 16"
  by (simp add: daily_sales_def demo_db_cheap1_def demo_order_def)

lemma round2_sixteenth: "round2 (1 / 16) = 3 / 50"
  by (simp add: round2_def round_half_even_def)

lemma demo_week:
  "map (date_minus (dt_date demo_now)) [6, 5, 4, 3, 2, 1, 0] =
     [\<lparr>year = 2025, month = 3, day = 25\<rparr>, \<lparr>year = 2025, month = 3, day = 26\<rparr>,
      \<lparr>year = 2025, month = 3, day = 27\<rparr>, \<lparr>year = 2025, month = 3, day = 28\<rparr>,
      \<lparr>year = 2025, month = 3, day = 29\<rparr>, \<lparr>year = 2025, month = 3, day = 30\<rparr>,
      \<lparr>year = 2025, month = 3, day = 31\<rparr>]"
  by (simp add: date_minus_def demo_now_def prev_day_def eval_nat_numeral)

lemma demo_labels:
  "map strftime_b_d
     [\<lparr>year = 2025, month = 3, day = 25\<rparr>, \<lparr>year = 2025, month = 3, day = 26\<rparr>,
      \<lparr>year = 2025, month = 3, day = 27\<rparr>, \<lparr>year = 2025, month = 3, day = 28\<rparr>,
      \<lparr>year = 2025, month = 3, day = 29\<rparr>, \<lparr>year = 2025, month = 3, day = 30\<rparr>,
      \<lparr>year = 2025, month = 3, day = 31\<rparr>] =
     [''Mar 25'', ''Mar 26'', ''Mar 27'', ''Mar 28'', ''Mar 29'', ''Mar 30'', ''Mar 31'']"
  by (simp add: strftime_b_d_def month_abbr_def zfill_def digits10.simps)

lemma demo_chart_dates:
  "map sp_date (get_sales_chart_data demo_now demo_db_cheap1) =
     [''Mar 25'', ''Mar 26'', ''Mar 27'', ''Mar 28'', ''Mar 29'', ''Mar 30'', ''Mar 31'']"
proof -
  have "map sp_date (get_sales_chart_data demo_now demo_db_cheap1) =
        map strftime_b_d (map (date_minus (dt_date demo_now)) [6, 5, 4, 3, 2, 1, 0])"
    by (simp add: get_sales_chart_data_def Let_def)
  then show ?thesis by (simp only: demo_week demo_labels)
qed

text \<open>
  Claim C8, as stated, fails in one point: an entry is not the day's sum but the sum
  rounded by \<open>round(daily_sales, 2)\<close>. After an order of one unit at the price of one
  sixteenth (0.0625) the sum for today is 0.0625 and the entry for today is 0.06.
\<close>

theorem C8_unrounded_sum_counterexample:
  "add_order demo_env demo_form_one demo_db_cheap = Inr demo_db_cheap1 \<and>
   daily_sales demo_db_cheap1 (dt_date demo_now) = 1 / 16 \<and>
   get_sales_chart_data demo_now demo_db_cheap1 ! 6 = \<lparr>sp_date = ''Mar 31'', sales = 3 / 50\<rparr>"
proof -
  have "get_sales_chart_data demo_now demo_db_cheap1 ! 6 =
        \<lparr>sp_date = strftime_b_d (dt_date demo_now),
         sales = round2 (daily_sales demo_db_cheap1 (dt_date demo_now))\<rparr>"
    by (simp add: get_sales_chart_data_def Let_def date_minus_def)
  moreover have "strftime_b_d (dt_date demo_now) = ''Mar 31''"
    by (simp add: strftime_b_d_def month_abbr_def zfill_def digits10.simps demo_now_def)
  ultimately show ?thesis
    by (simp add: demo_cheap_order demo_cheap_daily round2_sixteenth)
qed

text \<open>
  Claim C8, amended. The series has exactly seven entries. Entry \<open>k\<close> (from 0) is
  labelled with the date \<open>6 - k\<close> days before today and holds the sum of
  \<open>total_amount\<close> over the orders created on that date and not cancelled, rounded to two
  decimals. The last date is today and each date is the calendar day before the next
  one (for a date of the calendar, \<open>prev_day\<close> is earlier and \<open>next_day\<close> undoes it), so
  the entries are in chronological order. A day on which every order is cancelled, or
  that has no order, yields 0.
\<close>

theorem C8_daily_sales_rounded:
  "length (get_sales_chart_data today d) = 7 \<and>
   (\<forall>k<7. get_sales_chart_data today d ! k =
      \<lparr>sp_date = strftime_b_d (date_minus (dt_date today) (6 - k)),
       sales = round2 (daily_sales d (date_minus (dt_date today) (6 - k)))\<rparr>) \<and>
   date_minus (dt_date today) 0 = dt_date today \<and>
   (\<forall>n. date_minus (dt_date today) (Suc n) = prev_day (date_minus (dt_date today) n)) \<and>
   (\<forall>x. valid_date x \<longrightarrow> date_less (prev_day x) x \<and> next_day (prev_day x) = x) \<and>
   (\<forall>dt. (\<forall>x \<in> set (orders d). dt_date (created_at x) = dt \<longrightarrow> status x = ''cancelled'') \<longrightarrow>
      round2 (daily_sales d dt) = 0)"
proof (intro conjI allI impI)
  show "length (get_sales_chart_data today d) = 7" by (simp add: get_sales_chart_data_def)
next
  fix k :: nat assume "k < 7"
  then show "get_sales_chart_data today d ! k =
      \<lparr>sp_date = strftime_b_d (date_minus (dt_date today) (6 - k)),
       sales = round2 (daily_sales d (date_minus (dt_date today) (6 - k)))\<rparr>"
    by (rule sales_chart_nth)
next
  show "date_minus (dt_date today) 0 = dt_date today" by (simp add: date_minus_def)
next
  fix n show "date_minus (dt_date today) (Suc n) = prev_day (date_minus (dt_date today) n)"
    by (rule date_minus_Suc)
next
  fix x assume "valid_date x" then show "date_less (prev_day x) x" by (rule prev_day_less)
next
  fix x assume "valid_date x" then show "next_day (prev_day x) = x" by (rule next_prev_day)
next
  fix dt assume "\<forall>x \<in> set (orders d). dt_date (created_at x) = dt \<longrightarrow> status x = ''cancelled''"
  then show "round2 (daily_sales d dt) = 0" by (simp add: daily_sales_none round2_zero)
qed

theorem C8_daily_sales_rounded_witness:
  "valid_date (dt_date demo_now) \<and>
   filter (\<lambda>x. dt_date (created_at x) = prev_day (dt_date demo_now)) (orders demo_db_cheap1) = [] \<and>
   length (get_sales_chart_data demo_now demo_db_cheap1) = 7 \<and>
   map sp_date (get_sales_chart_data demo_now demo_db_cheap1) =
     [''Mar 25'', ''Mar 26'', ''Mar 27'', ''Mar 28'', ''Mar 29'', ''Mar 30'', ''Mar 31''] \<and>
   get_sales_chart_data demo_now demo_db_cheap1 ! 6 =
     \<lparr>sp_date = strftime_b_d (date_minus (dt_date demo_now) 0),
      sales = round2 (daily_sales demo_db_cheap1 (date_minus (dt_date demo_now) 0))\<rparr> \<and>
   date_less (prev_day (dt_date demo_now)) (dt_date demo_now) \<and>
   next_day (prev_day (dt_date demo_now)) = dt_date demo_now \<and>
   round2 (daily_sales demo_db_cheap1 (prev_day (dt_date demo_now))) = 0"
proof -
  have v: "valid_date (dt_date demo_now)"
    by (simp add: valid_date_def demo_now_def days_in_month_def)
  have e: "filter (\<lambda>x. dt_date (created_at x) = prev_day (dt_date demo_now)) (orders demo_db_cheap1) = []"
    by (simp add: demo_db_cheap1_def demo_order_def demo_now_def prev_day_def)
  then have none: "\<forall>x \<in> set (orders demo_db_cheap1).
      dt_date (created_at x) = prev_day (dt_date demo_now) \<longrightarrow> status x = ''cancelled''"
    by (simp add: filter_empty_conv)
  note inst = C8_daily_sales_rounded[of demo_now demo_db_cheap1]
  from inst have len: "length (get_sales_chart_data demo_now demo_db_cheap1) = 7" by blast
  from inst have "\<forall>k<7. get_sales_chart_data demo_now demo_db_cheap1 ! k =
      \<lparr>sp_date = strftime_b_d (date_minus (dt_date demo_now) (6 - k)),
       sales = round2 (daily_sales demo_db_cheap1 (date_minus (dt_date demo_now) (6 - k)))\<rparr>"
    by blast
  then have last: "get_sales_chart_data demo_now demo_db_cheap1 ! 6 =
     \<lparr>sp_date = strftime_b_d (date_minus (dt_date demo_now) 0),
      sales = round2 (daily_sales demo_db_cheap1 (date_minus (dt_date demo_now) 0))\<rparr>"
    by simp
  from inst v have chron: "date_less (prev_day (dt_date demo_now)) (dt_date demo_now) \<and>
      next_day (prev_day (dt_date demo_now)) = dt_date demo_now"
    by blast
  from inst none have zero: "round2 (daily_sales demo_db_cheap1 (prev_day (dt_date demo_now))) = 0"
    by blast
  from v e len demo_chart_dates last chron zero show ?thesis by blast
qed

subsection \<open>Monthly revenue\<close>

text \<open>Stepping over whole months at once, to compute with dates.\<close>

lemma date_minus_add: "date_minus x (b + a) = date_minus (date_minus x a) b"
  by (simp add: date_minus_def funpow_add)

lemma date_minus_within: "n < day x \<Longrightarrow> date_minus x n = x\<lparr>day := day x - n\<rparr>"
proof (induction n)
  case 0
  then show ?case by (simp add: date_minus_def)
next
  case (Suc n)
  then have "date_minus x n = x\<lparr>day := day x - n\<rparr>" by simp
  moreover have "1 < day x - n" using Suc.prems by simp
  ultimately show ?case by (simp add: date_minus_Suc prev_day_def)
qed

lemma date_minus_first:
  assumes "1 \<le> day x"
  shows "date_minus x (day x) =
         (if 1 < month x
          then \<lparr>year = year x, month = month x - 1, day = days_in_month (year x) (month x - 1)\<rparr>
          else \<lparr>year = year x - 1, month = 12, day = 31\<rparr>)"
proof -
  from assms have "day x = Suc (day x - 1)" by simp
  then have "date_minus x (day x) = prev_day (date_minus x (day x - 1))"
    using date_minus_Suc by metis
  also have "date_minus x (day x - 1) = x\<lparr>day := 1\<rparr>"
    using assms by (simp add: date_minus_within)
  finally show ?thesis by (cases x) (simp add: prev_day_def)
qed

lemma date_minus_cross:
  assumes "1 \<le> day x" and "day x \<le> n"
  shows "date_minus x n =
         date_minus (if 1 < month x
                     then \<lparr>year = year x, month = month x - 1,
                           day = days_in_month (year x) (month x - 1)\<rparr>
                     else \<lparr>year = year x - 1, month = 12, day = 31\<rparr>) (n - day x)"
proof -
  from assms(2) have "n = (n - day x) + day x" by simp
  then have "date_minus x n = date_minus (date_minus x (day x)) (n - day x)"
    using date_minus_add by metis
  then show ?thesis by (simp only: date_minus_first[OF assms(1)])
qed

lemma date_plus_Suc: "date_plus x (Suc n) = next_day (date_plus x n)"
  by (simp add: date_plus_def)

lemma date_plus_add: "date_plus x (b + a) = date_plus (date_plus x a) b"
  by (simp add: date_plus_def funpow_add)

lemma date_plus_within:
  "day x + n \<le> days_in_month (year x) (month x) \<Longrightarrow> date_plus x n = x\<lparr>day := day x + n\<rparr>"
proof (induction n)
  case 0
  then show ?case by (simp add: date_plus_def)
next
  case (Suc n)
  then have "date_plus x n = x\<lparr>day := day x + n\<rparr>" by simp
  moreover have "day x + n < days_in_month (year x) (month x)" using Suc.prems by simp
  ultimately show ?case by (simp add: date_plus_Suc next_day_def)
qed

lemma date_plus_cross:
  assumes "day x \<le> days_in_month (year x) (month x)"
      and "days_in_month (year x) (month x) < day x + n"
  shows "date_plus x n =
         date_plus (if month x < 12 then \<lparr>year = year x, month = month x + 1, day = 1\<rparr>
                    else \<lparr>year = year x + 1, month = 1, day = 1\<rparr>)
           (n - Suc (days_in_month (year x) (month x) - day x))"
proof -
  let ?r = "days_in_month (year x) (month x) - day x"
  have last: "date_plus x ?r = x\<lparr>day := days_in_month (year x) (month x)\<rparr>"
    using assms(1) by (simp add: date_plus_within)
  have "date_plus x (Suc ?r) = next_day (date_plus x ?r)" by (rule date_plus_Suc)
  also have "\<dots> = next_day (x\<lparr>day := days_in_month (year x) (month x)\<rparr>)"
    by (simp only: last)
  also have "\<dots> = (if month x < 12 then \<lparr>year = year x, month = month x + 1, day = 1\<rparr>
                    else \<lparr>year = year x + 1, month = 1, day = 1\<rparr>)"
    by (cases x) (simp add: next_day_def)
  finally have first: "date_plus x (Suc ?r) =
      (if month x < 12 then \<lparr>year = year x, month = month x + 1, day = 1\<rparr>
       else \<lparr>year = year x + 1, month = 1, day = 1\<rparr>)" .
  from assms have "n = (n - Suc ?r) + Suc ?r" by simp
  then have "date_plus x n = date_plus (date_plus x (Suc ?r)) (n - Suc ?r)"
    using date_plus_add by metis
  then show ?thesis by (simp only: first)
qed

text \<open>
  The dates \<open>get_monthly_revenue\<close> steps to from 31 March 2025, the ends of the
  buckets it derives from them, and the end of the last bucket.
\<close>

lemma demo_month_steps:
  "map (\<lambda>i. date_minus (dt_date demo_now) (i * 30)) [5, 4, 3, 2, 1, 0] =
     [\<lparr>year = 2024, month = 11, day = 1\<rparr>, \<lparr>year = 2024, month = 12, day = 1\<rparr>,
      \<lparr>year = 2024, month = 12, day = 31\<rparr>, \<lparr>year = 2025, month = 1, day = 30\<rparr>,
      \<lparr>year = 2025, month = 3, day = 1\<rparr>, \<lparr>year = 2025, month = 3, day = 31\<rparr>]"
  by (simp add: demo_now_def date_minus_within date_minus_cross days_in_month_def is_leap_def)

lemma demo_month_ends:
  "map (\<lambda>m. (date_plus m 32)\<lparr>day := 1\<rparr>)
     [\<lparr>year = 2024, month = 11, day = 1\<rparr>, \<lparr>year = 2024, month = 12, day = 1\<rparr>,
      \<lparr>year = 2025, month = 1, day = 1\<rparr>, \<lparr>year = 2025, month = 3, day = 1\<rparr>] =
     [\<lparr>year = 2024, month = 12, day = 1\<rparr>, \<lparr>year = 2025, month = 1, day = 1\<rparr>,
      \<lparr>year = 2025, month = 2, day = 1\<rparr>, \<lparr>year = 2025, month = 4, day = 1\<rparr>]"
  by (simp add: date_plus_within date_plus_cross days_in_month_def is_leap_def)

lemma demo_tomorrow: "date_plus (dt_date demo_now) 1 = \<lparr>year = 2025, month = 4, day = 1\<rparr>"
  by (simp add: demo_now_def date_plus_def next_day_def days_in_month_def)

lemma round2_whole: "round2 50 = 50" "round2 100 = 100"
  by (simp_all add: round2_def round_half_even_def)

text \<open>
  Claim C7 does not hold of the code: \<open>get_monthly_revenue\<close> finds its six months by
  stepping back \<open>i * 30\<close> days from today, which is not a step of \<open>i\<close> months. On
  31 March 2025 the six buckets are November, December, December, January, March and
  March: October and February are missing, December and March come twice, and the 100
  of the February order is in no bucket while the 50 of December is counted twice. On
  15 March 2025 the same function returns the six months October to March once each.
\<close>

theorem C7_monthly_revenue_on_31_march:
  "get_monthly_revenue demo_now demo_db_winter =
     [\<lparr>mp_month = ''Nov'', revenue = 0\<rparr>, \<lparr>mp_month = ''Dec'', revenue = 50\<rparr>,
      \<lparr>mp_month = ''Dec'', revenue = 50\<rparr>, \<lparr>mp_month = ''Jan'', revenue = 0\<rparr>,
      \<lparr>mp_month = ''Mar'', revenue = 0\<rparr>, \<lparr>mp_month = ''Mar'', revenue = 0\<rparr>] \<and>
   get_monthly_revenue (midnight \<lparr>year = 2025, month = 3, day = 15\<rparr>) demo_db_winter =
     [\<lparr>mp_month = ''Oct'', revenue = 0\<rparr>, \<lparr>mp_month = ''Nov'', revenue = 0\<rparr>,
      \<lparr>mp_month = ''Dec'', revenue = 50\<rparr>, \<lparr>mp_month = ''Jan'', revenue = 0\<rparr>,
      \<lparr>mp_month = ''Feb'', revenue = 100\<rparr>, \<lparr>mp_month = ''Mar'', revenue = 0\<rparr>]"
  by (simp add: get_monthly_revenue_def Let_def demo_now_def midnight_def
        date_minus_within date_minus_cross date_plus_within date_plus_cross
        days_in_month_def is_leap_def dt_less_def date_less_def month_abbr_def
        demo_db_winter_def demo_order_at_def demo_order_def round2_zero round2_whole)

subsection \<open>Order items belong to orders\<close>

text \<open>
  That every order item belongs to an existing order, the hypothesis under which the
  total of a new order was related to its items, is an invariant: each of the four
  handlers that write to the database preserves it.
\<close>

lemma add_order_keeps_items_owned:
  assumes run: "add_order e f d = Inr d'"
      and ref: "\<forall>i \<in> set (order_items d). order_id i \<in> o_id ` set (orders d)"
  shows "\<forall>i \<in> set (order_items d'). order_id i \<in> o_id ` set (orders d')"
proof -
  define oid where "oid = next_id (map o_id (orders d))"
  from run obtain c cid d1 tot where
    loop: "add_order_loop oid
       (zip (form_getlist f ''product_id[]'') (form_getlist f ''quantity[]'')) (d, 0) = Inr (d1, tot)"
    and d': "d' = d1\<lparr>orders := orders d1 @
              [\<lparr>o_id = oid, order_number = generate_order_number e,
                customer_id = cid, status = ''pending'', total_amount = tot, created_at = utcnow e,
                created_by = Some (current_user_id e)\<rparr>],
            transactions := transactions d1 @
              [\<lparr>t_id = next_id (map t_id (transactions d1)), transaction_type = ''income'',
                t_category = Some ''Sales'', amount = tot,
                t_description = Some (''Order '' @ generate_order_number e),
                reference = Some (generate_order_number e),
                t_date = dt_date (now e), t_created_at = utcnow e,
                t_created_by = Some (current_user_id e)\<rparr>]\<rparr>"
    unfolding oid_def by (rule add_order_Inr)
  from loop_frame[OF loop] have fr: "orders d1 = orders d" by simp
  from loop_items[OF loop] obtain new where
    new: "order_items d1 = order_items d @ new" and newp: "\<forall>i \<in> set new. order_id i = oid"
    by blast
  have os: "o_id ` set (orders d') = insert oid (o_id ` set (orders d))"
    by (simp add: d' fr)
  have its: "order_items d' = order_items d @ new" by (simp add: d' new)
  show ?thesis
    unfolding os its using ref newp by auto
qed

lemma delete_order_keeps_items_owned:
  assumes run: "delete_order k d = Inr d'"
      and ref: "\<forall>i \<in> set (order_items d). order_id i \<in> o_id ` set (orders d)"
  shows "\<forall>i \<in> set (order_items d'). order_id i \<in> o_id ` set (orders d')"
proof -
  from run have d': "orders d' = filter (\<lambda>x. o_id x \<noteq> k) (orders d)"
      "order_items d' = filter (\<lambda>i. order_id i \<noteq> k) (order_items d)"
    by (auto simp: delete_order_def split: option.splits)
  show ?thesis unfolding d' using ref by auto
qed

lemma set_status_ids:
  "o_id ` set (map (\<lambda>x. if o_id x = k then x\<lparr>status := s\<rparr> else x) os) = o_id ` set os"
  by (induction os) auto

lemma update_order_status_keeps_items_owned:
  assumes run: "update_order_status k f d = Inr d'"
      and ref: "\<forall>i \<in> set (order_items d). order_id i \<in> o_id ` set (orders d)"
  shows "\<forall>i \<in> set (order_items d'). order_id i \<in> o_id ` set (orders d')"
proof -
  from run have "d' = d \<or> (\<exists>s. d' = d\<lparr>orders :=
      map (\<lambda>x. if o_id x = k then x\<lparr>status := s\<rparr> else x) (orders d)\<rparr>)"
    by (auto simp: update_order_status_def split: option.splits if_splits)
  then show ?thesis
  proof
    assume "d' = d"
    with ref show ?thesis by simp
  next
    assume "\<exists>s. d' = d\<lparr>orders :=
      map (\<lambda>x. if o_id x = k then x\<lparr>status := s\<rparr> else x) (orders d)\<rparr>"
    then obtain s where d': "d' = d\<lparr>orders :=
      map (\<lambda>x. if o_id x = k then x\<lparr>status := s\<rparr> else x) (orders d)\<rparr>" by blast
    have "order_items d' = order_items d" "o_id ` set (orders d') = o_id ` set (orders d)"
      by (simp_all add: d' set_status_ids del: set_map)
    with ref show ?thesis by simp
  qed
qed

lemma adjust_stock_keeps_items_owned:
  assumes run: "adjust_stock k f d = Inr d'"
      and ref: "\<forall>i \<in> set (order_items d). order_id i \<in> o_id ` set (orders d)"
  shows "\<forall>i \<in> set (order_items d'). order_id i \<in> o_id ` set (orders d')"
proof -
  from run obtain p a where
    "int64 k" "get_product (products d) k = Some p"
    "(case form_get f ''adjustment'' of None \<Rightarrow> Some 0 | Some s \<Rightarrow> py_int s) = Some a"
    "int64 (max 0 (stock_quantity p + a))"
    and d': "d' = d\<lparr>products := set_stock (products d) k (max 0 (stock_quantity p + a))\<rparr>"
    by (rule adjust_stock_Inr)
  show ?thesis using ref by (simp add: d')
qed

end

